theory Spec2Isabelle
  imports Complex_Main
begin

section \<open>JavaScript numbers and strings\<close>

text \<open>
  The service is JavaScript. Its numbers are IEEE doubles; the model keeps the three
  special values apart and holds a finite number as a real. The conversion of a text to a
  number rounds to the nearest double, as the language does; the numbers that a parsed
  reply holds and the arithmetic of the keyword heuristic are taken as exact. A string is
  the list of its code units, and the model covers the code units below 256 (ASCII and
  Latin-1), on which white space and lower case are as in the language.
\<close>

datatype jsnum = NaN | NegInf | Fin real | PosInf

datatype js_error = TypeError | ReferenceError | SyntaxError | ProviderError | UnsupportedPattern

fun num_le :: "jsnum \<Rightarrow> jsnum \<Rightarrow> bool" where
  "num_le (Fin a) (Fin b) = (a \<le> b)"
| "num_le NaN _ = False"
| "num_le _ NaN = False"
| "num_le NegInf _ = True"
| "num_le _ PosInf = True"
| "num_le _ _ = False"

definition num_gt :: "jsnum \<Rightarrow> jsnum \<Rightarrow> bool" where
  \<comment> \<open>the operator \<open>a > b\<close> on numbers: false as soon as one side is NaN\<close>
  "num_gt a b = (num_le b a \<and> a \<noteq> b)"

definition Math_min :: "jsnum \<Rightarrow> jsnum \<Rightarrow> jsnum" where
  "Math_min a b = (if a = NaN \<or> b = NaN then NaN else if num_le a b then a else b)"

definition Math_max :: "jsnum \<Rightarrow> jsnum \<Rightarrow> jsnum" where
  "Math_max a b = (if a = NaN \<or> b = NaN then NaN else if num_le a b then b else a)"

definition Math_round :: "real \<Rightarrow> real" where
  \<comment> \<open>\<open>Math.round\<close>: the nearest integer, a tie going up\<close>
  "Math_round x = of_int \<lfloor>x + 1 / 2\<rfloor>"

definition round_half_even :: "real \<Rightarrow> int" where
  \<comment> \<open>the nearest integer, a tie going to the even one\<close>
  "round_half_even q =
     (let f = \<lfloor>q\<rfloor>; d = q - of_int f
      in if d < 1 / 2 then f else if 1 / 2 < d then f + 1 else if even f then f else f + 1)"

definition double_ulp :: "real \<Rightarrow> real" where
  \<comment> \<open>the distance between neighbouring doubles at a magnitude: 52 bits below the leading
      one, and the fixed step of the subnormal numbers under \<open>2 powr - 1022\<close>\<close>
  "double_ulp a =
     (if a < 2 powr (- 1022) then 2 powr (- 1074) else 2 powr (of_int (\<lfloor>log 2 a\<rfloor> - 52)))"

definition to_double :: "real \<Rightarrow> jsnum" where
  \<comment> \<open>the Number value for a real: the nearest double, a tie going to the even mantissa,
      and an infinity from \<open>2 ^ 1024\<close> on\<close>
  "to_double x =
     (let a = \<bar>x\<bar>;
          r = of_int (round_half_even (a / double_ulp a)) * double_ulp a
      in if 2 ^ 1024 \<le> r then (if x < 0 then NegInf else PosInf)
         else Fin (if x < 0 then - r else r))"

definition in_range :: "real \<Rightarrow> real \<Rightarrow> jsnum \<Rightarrow> bool" where
  "in_range lo hi x = (case x of Fin r \<Rightarrow> lo \<le> r \<and> r \<le> hi | _ \<Rightarrow> False)"

definition toLowerChar :: "char \<Rightarrow> char" where
  \<comment> \<open>the capital letters below 256 are A to Z and the Latin-1 capitals from 192 to 222,
      the multiplication sign 215 apart; each has its small letter 32 further on\<close>
  "toLowerChar c =
     (let n = (of_char c :: nat)
      in if 65 \<le> n \<and> n \<le> 90 \<or> 192 \<le> n \<and> n \<le> 222 \<and> n \<noteq> 215 then char_of (n + 32)
         else c)"

definition toLowerCase :: "string \<Rightarrow> string" where
  "toLowerCase s = map toLowerChar s"

definition starts_with :: "string \<Rightarrow> string \<Rightarrow> bool" where
  \<comment> \<open>\<open>s.startsWith(p)\<close>\<close>
  "starts_with p s = (take (length p) s = p)"

fun str_includes :: "string \<Rightarrow> string \<Rightarrow> bool" where
  \<comment> \<open>\<open>s.includes(sub)\<close>\<close>
  "str_includes [] sub = (sub = [])"
| "str_includes (c # cs) sub = (if starts_with sub (c # cs) then True else str_includes cs sub)"

definition is_ws :: "char \<Rightarrow> bool" where
  \<comment> \<open>the white space and line terminators below 256: tab, LF, VT, FF, CR, space and
      the no-break space\<close>
  "is_ws c =
     (c \<in> set [CHR 0x09, CHR 0x0A, CHR 0x0B, CHR 0x0C, CHR 0x0D, CHR '' '', CHR 0xA0])"

definition trimStart :: "string \<Rightarrow> string" where
  "trimStart s = dropWhile is_ws s"

definition trim :: "string \<Rightarrow> string" where
  "trim s = rev (dropWhile is_ws (rev (dropWhile is_ws s)))"

definition is_digit :: "char \<Rightarrow> bool" where
  "is_digit c = (c \<in> set ''0123456789'')"

definition digit_val :: "char \<Rightarrow> nat" where
  \<comment> \<open>the value of a digit of any radix up to 16; 99 for a character that is none\<close>
  "digit_val c =
     (let n = (of_char c :: nat) in
      if 48 \<le> n \<and> n \<le> 57 then n - 48
      else if 97 \<le> n \<and> n \<le> 102 then n - 87
      else if 65 \<le> n \<and> n \<le> 70 then n - 55
      else 99)"

definition is_radix_digit :: "nat \<Rightarrow> char \<Rightarrow> bool" where
  "is_radix_digit radix c = (digit_val c < radix)"

definition digits_value :: "nat \<Rightarrow> string \<Rightarrow> nat" where
  "digits_value radix ds = foldl (\<lambda>a c. radix * a + digit_val c) 0 ds"

definition negate :: "jsnum \<Rightarrow> jsnum" where
  "negate x = (case x of NaN \<Rightarrow> NaN | NegInf \<Rightarrow> PosInf | Fin r \<Rightarrow> Fin (- r) | PosInf \<Rightarrow> NegInf)"

definition parse_exponent :: "string \<Rightarrow> int option" where
  \<comment> \<open>what may follow the mantissa of a decimal literal: nothing, or e/E, a sign, digits\<close>
  "parse_exponent s =
     (case s of
        [] \<Rightarrow> Some 0
      | c # r \<Rightarrow>
          if c = CHR ''e'' \<or> c = CHR ''E'' then
            (case r of
               [] \<Rightarrow> None
             | d # r' \<Rightarrow>
                 if d = CHR ''-'' then
                   (if r' \<noteq> [] \<and> list_all is_digit r' then Some (- int (digits_value 10 r')) else None)
                 else if d = CHR ''+'' then
                   (if r' \<noteq> [] \<and> list_all is_digit r' then Some (int (digits_value 10 r')) else None)
                 else if list_all is_digit r then Some (int (digits_value 10 r)) else None)
          else None)"

definition scale10 :: "real \<Rightarrow> int \<Rightarrow> real" where
  "scale10 m e = (if 0 \<le> e then m * 10 ^ nat e else m / 10 ^ nat (- e))"

definition StrUnsignedDecimalLiteral :: "string \<Rightarrow> jsnum" where
  "StrUnsignedDecimalLiteral u =
     (if u = ''Infinity'' then PosInf
      else
        let ip = takeWhile is_digit u;
            r1 = dropWhile is_digit u;
            dot = (r1 \<noteq> [] \<and> hd r1 = CHR ''.'');
            fp = (if dot then takeWhile is_digit (tl r1) else []);
            r2 = (if dot then dropWhile is_digit (tl r1) else r1)
        in if ip = [] \<and> fp = [] then NaN
           else (case parse_exponent r2 of
                   None \<Rightarrow> NaN
                 | Some e \<Rightarrow>
                     to_double (scale10 (real (digits_value 10 (ip @ fp)) / 10 ^ length fp) e)))"

definition NonDecimalIntegerLiteral :: "string \<Rightarrow> jsnum option" where
  \<comment> \<open>\<open>0x\<close>, \<open>0o\<close> and \<open>0b\<close> literals; None when the text has no such prefix\<close>
  "NonDecimalIntegerLiteral u =
     (let radix = (if starts_with ''0x'' u \<or> starts_with ''0X'' u then 16
                   else if starts_with ''0o'' u \<or> starts_with ''0O'' u then 8
                   else if starts_with ''0b'' u \<or> starts_with ''0B'' u then 2 else 0);
          ds = drop 2 u
      in if radix = 0 then None
         else if ds \<noteq> [] \<and> list_all (is_radix_digit radix) ds
           then Some (to_double (real (digits_value radix ds)))
         else Some NaN)"

definition StringToNumber :: "string \<Rightarrow> jsnum" where
  \<comment> \<open>the conversion of a string to a number (ECMAScript StringToNumber): the literal's
      value, rounded to the nearest double, as the engines do for a literal of any length\<close>
  "StringToNumber s =
     (let u = trim s in
      if u = [] then Fin 0
      else (case NonDecimalIntegerLiteral u of
              Some x \<Rightarrow> x
            | None \<Rightarrow>
                if hd u = CHR ''-'' then negate (StrUnsignedDecimalLiteral (tl u))
                else if hd u = CHR ''+'' then StrUnsignedDecimalLiteral (tl u)
                else StrUnsignedDecimalLiteral u))"

definition parseInt :: "string \<Rightarrow> jsnum" where
  \<comment> \<open>\<open>parseInt(s)\<close> with no radix: leading white space, a sign, \<open>0x\<close> for hexadecimal,
      then the longest run of digits, whose value is rounded to a double; NaN when there
      is none\<close>
  "parseInt s =
     (let u = trimStart s;
          neg = (u \<noteq> [] \<and> hd u = CHR ''-'');
          v = (if u \<noteq> [] \<and> (hd u = CHR ''-'' \<or> hd u = CHR ''+'') then tl u else u);
          hex = (starts_with ''0x'' v \<or> starts_with ''0X'' v);
          radix = (if hex then 16 else 10);
          w = (if hex then drop 2 v else v);
          ds = takeWhile (is_radix_digit radix) w
      in if ds = [] then NaN
         else if neg then negate (to_double (real (digits_value radix ds)))
         else to_double (real (digits_value radix ds)))"

function show_nat :: "nat \<Rightarrow> string" where
  "show_nat n =
     (if n < 10 then [char_of (48 + n)]
      else show_nat (n div 10) @ [char_of (48 + n mod 10)])"
  by pat_completeness auto
termination
  by (relation "measure id") auto

section \<open>JavaScript values\<close>

text \<open>
  What \<open>JSON.parse\<close> returns, and \<open>undefined\<close> for a missing property. An object is
  the list of its own properties. The language model's reply is free text, so every shape
  of value can reach the code that reads it.
\<close>

datatype jsval =
    JUndefined
  | JNull
  | JBool bool
  | JNum real
  | JStr string
  | JArr "jsval list"
  | JObj "(string \<times> jsval) list"

fun truthy :: "jsval \<Rightarrow> bool" where
  "truthy JUndefined = False"
| "truthy JNull = False"
| "truthy (JBool b) = b"
| "truthy (JNum r) = (r \<noteq> 0)"
| "truthy (JStr s) = (s \<noteq> [])"
| "truthy (JArr _) = True"
| "truthy (JObj _) = True"

definition js_or :: "jsval \<Rightarrow> jsval \<Rightarrow> jsval" where
  \<comment> \<open>\<open>a || b\<close>\<close>
  "js_or a b = (if truthy a then a else b)"

fun getField :: "jsval \<Rightarrow> string \<Rightarrow> js_error + jsval" where
  \<comment> \<open>\<open>v.name\<close> for a name that no built-in prototype defines: reading a property of
      \<open>null\<close> or \<open>undefined\<close> throws, a primitive or an array has no such property\<close>
  "getField JUndefined name = Inl TypeError"
| "getField JNull name = Inl TypeError"
| "getField (JObj kvs) name = (case map_of kvs name of None \<Rightarrow> Inr JUndefined | Some x \<Rightarrow> Inr x)"
| "getField _ name = Inr JUndefined"

fun ToString_throws :: "jsval \<Rightarrow> bool" where
  \<comment> \<open>converting an object to a primitive calls its \<open>toString\<close>; a parsed object whose own
      property \<open>toString\<close> hides the inherited method has nothing callable there, and the
      conversion throws. An array converts its elements, \<open>null\<close> excepted.\<close>
  "ToString_throws (JObj kvs) = (map_of kvs ''toString'' \<noteq> None)"
| "ToString_throws (JArr xs) = list_ex ToString_throws xs"
| "ToString_throws _ = False"

fun num_of :: "jsval \<Rightarrow> jsnum" where
  \<comment> \<open>the number a value converts to when the conversion does not throw; an array goes
      through its text: empty for \<open>[]\<close>, the element's for one element, and a text with a
      comma, which is no number, for more\<close>
  "num_of JUndefined = NaN"
| "num_of JNull = Fin 0"
| "num_of (JBool b) = Fin (if b then 1 else 0)"
| "num_of (JNum r) = Fin r"
| "num_of (JStr s) = StringToNumber s"
| "num_of (JObj _) = NaN"
| "num_of (JArr []) = Fin 0"
| "num_of (JArr [JUndefined]) = Fin 0"
| "num_of (JArr [JNull]) = Fin 0"
| "num_of (JArr [JBool _]) = NaN"
| "num_of (JArr [JNum r]) = Fin r"
| "num_of (JArr [JStr s]) = StringToNumber s"
| "num_of (JArr [JObj _]) = NaN"
| "num_of (JArr [JArr ys]) = num_of (JArr ys)"
| "num_of (JArr (x # y # zs)) = NaN"

definition ToNumber :: "jsval \<Rightarrow> js_error + jsnum" where
  "ToNumber v = (if ToString_throws v then Inl TypeError else Inr (num_of v))"

fun join_comma :: "string list \<Rightarrow> string" where
  "join_comma [] = []"
| "join_comma [s] = s"
| "join_comma (s # t # r) = s @ '','' @ join_comma (t # r)"

fun ToString_text :: "(real \<Rightarrow> string) \<Rightarrow> jsval \<Rightarrow> string" where
  \<comment> \<open>the text of a value; the first argument is \<open>Number.prototype.toString\<close>, the
      formatting of a double, which the model takes as given\<close>
  "ToString_text nts JUndefined = ''undefined''"
| "ToString_text nts JNull = ''null''"
| "ToString_text nts (JBool b) = (if b then ''true'' else ''false'')"
| "ToString_text nts (JNum r) = nts r"
| "ToString_text nts (JStr s) = s"
| "ToString_text nts (JObj _) = ''[object Object]''"
| "ToString_text nts (JArr xs) =
     join_comma (map (\<lambda>x. if x = JUndefined \<or> x = JNull then [] else ToString_text nts x) xs)"

definition ToString :: "(real \<Rightarrow> string) \<Rightarrow> jsval \<Rightarrow> js_error + string" where
  "ToString nts v = (if ToString_throws v then Inl TypeError else Inr (ToString_text nts v))"

fun spread :: "jsval \<Rightarrow> js_error + jsval list" where
  \<comment> \<open>\<open>[...v]\<close>: arrays and strings are iterable, nothing else here is\<close>
  "spread (JArr xs) = Inr xs"
| "spread (JStr s) = Inr (map (\<lambda>c. JStr [c]) s)"
| "spread _ = Inl TypeError"

definition thenE :: "'e + 'a \<Rightarrow> ('a \<Rightarrow> 'e + 'b) \<Rightarrow> 'e + 'b" where
  \<comment> \<open>sequencing of steps that may throw\<close>
  "thenE m f = (case m of Inl e \<Rightarrow> Inl e | Inr x \<Rightarrow> f x)"

definition clamp :: "real \<Rightarrow> real \<Rightarrow> jsval \<Rightarrow> js_error + jsnum" where
  \<comment> \<open>\<open>Math.max(lo, Math.min(hi, v))\<close>\<close>
  "clamp lo hi v = thenE (ToNumber v) (\<lambda>n. Inr (Math_max (Fin lo) (Math_min (Fin hi) n)))"

record BiasAnalysis =
  biasScore :: jsnum
  biasLabel :: jsval
  confidence :: jsnum
  reasoning :: jsval
  keyIndicators :: jsval
  sourceReliability :: jsval
  analysisMethod :: string

section \<open>Tier 3: the keyword heuristic\<close>

definition liberalKeywords :: "string list" where
  "liberalKeywords =
    [''progressive'', ''liberal'', ''democratic'', ''democrats'', ''left-wing'', ''activist'',
     ''climate change'', ''global warming'', ''social justice'', ''systemic racism'',
     ''white privilege'', ''healthcare reform'', ''medicare for all'', ''gun control'',
     ''assault weapons'', ''LGBTQ'', ''transgender rights'', ''immigration reform'',
     ''dreamers'', ''refugees'', ''asylum seekers'', ''diversity'', ''inclusion'',
     ''income inequality'', ''wealth gap'', ''minimum wage'', ''living wage'', ''union'',
     ''workers rights'', ''environmental protection'', ''renewable energy'',
     ''green new deal'', ''civil rights'', ''voting rights'', ''vulnerable communities'',
     ''marginalized'', ''oppressed'', ''exploited'', ''corporate greed'']"

definition conservativeKeywords :: "string list" where
  "conservativeKeywords =
    [''conservative'', ''republican'', ''republicans'', ''right-wing'', ''patriot'',
     ''constitutional'', ''traditional values'', ''family values'', ''religious freedom'',
     ''christian values'', ''tax cuts'', ''deregulation'', ''free market'', ''capitalism'',
     ''small business'', ''job creators'', ''fiscal responsibility'', ''balanced budget'',
     ''national debt'', ''government spending'', ''second amendment'', ''gun rights'',
     ''border security'', ''illegal immigration'', ''law and order'', ''crime'',
     ''public safety'', ''police'', ''military'', ''national security'', ''terrorism'',
     ''limited government'', ''states rights'', ''school choice'', ''pro-life'', ''unborn'',
     ''radical left'', ''socialist'', ''communist'', ''woke'', ''cancel culture'',
     ''mainstream media'']"

definition neutralKeywords :: "string list" where
  "neutralKeywords =
    [''bipartisan'', ''nonpartisan'', ''balanced'', ''objective'', ''factual'', ''data shows'',
     ''according to data'', ''research shows'', ''experts say'', ''analysis reveals'',
     ''study finds'', ''officials said'', ''sources indicate'', ''reported'', ''confirmed'',
     ''statistics show'']"

definition liberalSources :: "string list" where
  "liberalSources =
    [''huffington'', ''huffpost'', ''salon'', ''vox'', ''dailykos'', ''motherjones'',
     ''thenation'', ''commondreams'', ''thinkprogress'', ''mediamatters'', ''rawstory'',
     ''alternet'', ''truthout'', ''democracynow'', ''jacobin'', ''slate'', ''washingtonpost'',
     ''nytimes'', ''cnn'', ''msnbc'']"

definition conservativeSources :: "string list" where
  "conservativeSources =
    [''foxnews'', ''fox'', ''dailywire'', ''breitbart'', ''nationalreview'', ''townhall'',
     ''dailycaller'', ''redstate'', ''theblaze'', ''washingtonexaminer'', ''nypost'',
     ''americanthinker'', ''powerline'', ''hotair'', ''pjmedia'', ''oann'', ''newsmax'']"

definition regex_meta :: "char \<Rightarrow> bool" where
  \<comment> \<open>the characters with a meaning of their own in a regular expression\<close>
  "regex_meta c = (c \<in> set (CHR 0x5C # ''^$.*+?()[]{}|''))"

definition plain_pattern :: "string \<Rightarrow> bool" where
  "plain_pattern kw = (kw \<noteq> [] \<and> list_all (\<lambda>c. \<not> regex_meta c) kw)"

function count_matches :: "string \<Rightarrow> string \<Rightarrow> nat" where
  \<comment> \<open>the matches of a global search for a plain text: left to right, not overlapping\<close>
  "count_matches kw s =
     (if kw = [] \<or> s = [] then 0
      else if starts_with kw s then Suc (count_matches kw (drop (length kw) s))
      else count_matches kw (tl s))"
  by pat_completeness auto
termination
  by (relation "measure (\<lambda>(kw, s). length s)") auto

definition regexp_match_count :: "string \<Rightarrow> string \<Rightarrow> js_error + nat" where
  \<comment> \<open>\<open>(s.match(new RegExp(kw, 'g')) || []).length\<close>, for a pattern that is plain text;
      any other pattern is outside the model\<close>
  "regexp_match_count kw s =
     (if plain_pattern kw then Inr (count_matches kw s) else Inl UnsupportedPattern)"

fun keywordScore :: "string list \<Rightarrow> string \<Rightarrow> string \<Rightarrow> js_error + nat" where
  \<comment> \<open>one \<open>forEach\<close> over a keyword list: a title match counts twice\<close>
  "keywordScore [] titleLower contentLower = Inr 0"
| "keywordScore (keyword # rest) titleLower contentLower =
     thenE (regexp_match_count keyword titleLower) (\<lambda>titleMatches.
     thenE (regexp_match_count keyword contentLower) (\<lambda>contentMatches.
     thenE (keywordScore rest titleLower contentLower) (\<lambda>score.
       Inr ((titleMatches * 2) + contentMatches + score))))"

definition contentBiasDecision ::
  "(nat \<Rightarrow> real) \<Rightarrow> real \<Rightarrow> real \<Rightarrow> real \<Rightarrow> real \<Rightarrow> real \<times> string \<times> real" where
  \<comment> \<open>the score, label and confidence of the heuristic, from the scores and the source
      modifier; \<open>rnd k\<close> is what the k-th call of \<open>Math.random()\<close> returns\<close>
  "contentBiasDecision rnd liberalScore conservativeScore neutralScore sourceModifier =
     (let totalPoliticalScore = liberalScore + conservativeScore in
      if totalPoliticalScore > 0 then
        if liberalScore > conservativeScore \<or> sourceModifier < 0 then
          let dominanceRatio =
                max 0.3 ((liberalScore + \<bar>sourceModifier\<bar>) / max 1 (totalPoliticalScore + 10));
              score = max 15 (50 - (dominanceRatio * 35))
          in (score, if score \<le> 25 then ''Highly Liberal'' else ''Liberal'',
              min 0.85 (0.6 + (dominanceRatio * 0.25)))
        else if conservativeScore > liberalScore \<or> sourceModifier > 0 then
          let dominanceRatio =
                max 0.3 ((conservativeScore + \<bar>sourceModifier\<bar>) / max 1 (totalPoliticalScore + 10));
              score = min 85 (50 + (dominanceRatio * 35))
          in (score, if score \<ge> 75 then ''Highly Conservative'' else ''Conservative'',
              min 0.85 (0.6 + (dominanceRatio * 0.25)))
        else if neutralScore > totalPoliticalScore * 1.5 \<and> totalPoliticalScore < 3 then
          (50 + sourceModifier, ''Neutral/Centrist'', 0.6)
        else if rnd 0 > 0.5 then (35, ''Liberal'', 0.6)
        else (65, ''Conservative'', 0.6)
      else if rnd 0 > 0.6 then
        let score = (if rnd 1 > 0.5 then 35 else 65)
        in (score, if score < 50 then ''Liberal'' else ''Conservative'', 0.5)
      else (50 + sourceModifier, ''Neutral/Centrist'', 0.5))"

definition ctnAnalyzeContentBasedBias ::
  "(nat \<Rightarrow> real) \<Rightarrow> string \<Rightarrow> string \<Rightarrow> string \<Rightarrow> js_error + BiasAnalysis" where
  "ctnAnalyzeContentBasedBias rnd title content source =
     (let titleLower = toLowerCase title;
          contentLower = toLowerCase content
      in
      thenE (keywordScore liberalKeywords titleLower contentLower) (\<lambda>liberal0.
      thenE (keywordScore conservativeKeywords titleLower contentLower) (\<lambda>conservative0.
      thenE (keywordScore neutralKeywords titleLower contentLower) (\<lambda>neutralScore.
        let sourceLower = toLowerCase source;
            isLiberal = list_ex (str_includes sourceLower) liberalSources;
            isConservative = list_ex (str_includes sourceLower) conservativeSources;
            liberalScore = (if isLiberal then liberal0 + 10 else liberal0);
            conservativeScore =
              (if isLiberal then conservative0
               else if isConservative then conservative0 + 10 else conservative0);
            sourceModifier = (if isLiberal then - 25 else if isConservative then 25 else 0);
            decision = contentBiasDecision rnd (real liberalScore) (real conservativeScore)
                         (real neutralScore) sourceModifier
        in Inr \<lparr>biasScore = Fin (Math_round (fst decision)),
                biasLabel = JStr (fst (snd decision)),
                confidence = Fin (snd (snd decision)),
                reasoning = JStr (''Content-based analysis: Detected '' @ show_nat liberalScore
                  @ '' liberal, '' @ show_nat conservativeScore @ '' conservative, and ''
                  @ show_nat neutralScore
                  @ '' neutral indicators in the article content from '' @ source),
                keyIndicators =
                  JArr [JStr ''content-analysis'', JStr ''keyword-detection'',
                        JStr ''linguistic-patterns''],
                sourceReliability = JStr ''Unknown'',
                analysisMethod = ''CTN content-based linguistic analysis''\<rparr>))))"

section \<open>The service's state and its collaborators\<close>

text \<open>
  The cache \<open>ctnCache\<close> is the only state. Its keys start with \<open>ctn_bias_\<close>,
  \<open>ctn_source_bias_\<close>, \<open>ctn_news_\<close> or \<open>ctn_summary_\<close>, so the kinds of entry never
  meet; the model keeps one map for each of the first three, and leaves out the summaries,
  which play no part below. No entry expires: everything below happens inside the
  time-to-live. The field \<open>trace\<close> is a ghost log of the calls made to the language model
  and to the search provider and of the fallback tiers entered.

  The language model and the search provider are outside the repository. What a call to
  the language model followed by \<open>ctnParseJsonResponse\<close> yields is an input of the model:
  the call failed, the reply was no JSON, or the parsed value.
\<close>

datatype llm_call = PrimaryCall | SourceCall | ContentCall

datatype llm_reply = CallFailed | ParseFailed | Parsed jsval

datatype exa_call = LiberalSearch | ConservativeSearch | CenterSearch | MixedSearch

datatype event = Llm llm_call | Exa exa_call | EnterTier2 | EnterTier3

datatype timestamp = Given string | IsoOf int

record article =
  art_title :: string
  art_content :: string
  art_source :: string
  art_url :: string
  art_publishedAt :: timestamp
  art_author :: "string option"
  art_imageUrl :: string

record ctn_state =
  bias_cache :: "string \<rightharpoonup> BiasAnalysis"
  source_cache :: "string \<rightharpoonup> jsval"
  news_cache :: "string \<rightharpoonup> article list"
  trace :: "event list"

record runtime =
  Number_toString :: "real \<Rightarrow> string"
  base64 :: "string \<Rightarrow> string"
  URL_hostname :: "string \<Rightarrow> string option"

text \<open>
  The record \<open>runtime\<close> holds three built-ins of the platform that the service calls and
  the model does not define: the text of a double, the Base64 text of a string, and the
  host name of a URL (None when \<open>new URL\<close> throws).
\<close>

definition initial_state :: ctn_state where
  \<comment> \<open>the service right after its start: \<open>new NodeCache\<close> holds nothing\<close>
  "initial_state =
     \<lparr>bias_cache = Map.empty, source_cache = Map.empty, news_cache = Map.empty, trace = []\<rparr>"

definition log_event :: "event \<Rightarrow> ctn_state \<Rightarrow> ctn_state" where
  "log_event e st = st\<lparr>trace := trace st @ [e]\<rparr>"

definition reply_value :: "llm_reply \<Rightarrow> js_error + jsval" where
  "reply_value r =
     (case r of CallFailed \<Rightarrow> Inl ProviderError | ParseFailed \<Rightarrow> Inl SyntaxError | Parsed v \<Rightarrow> Inr v)"

section \<open>Tier 1 and tier 2: the calls to the language model\<close>

definition primaryResult :: "jsval \<Rightarrow> js_error + BiasAnalysis" where
  \<comment> \<open>the object built from the parsed reply of tier 1\<close>
  "primaryResult biasAnalysis =
     thenE (getField biasAnalysis ''biasScore'') (\<lambda>score.
     thenE (clamp 0 100 (js_or score (JNum 50))) (\<lambda>clampedScore.
     thenE (getField biasAnalysis ''biasLabel'') (\<lambda>label.
     thenE (getField biasAnalysis ''confidence'') (\<lambda>conf.
     thenE (clamp 0 1 (js_or conf (JNum 0.5))) (\<lambda>clampedConf.
     thenE (getField biasAnalysis ''reasoning'') (\<lambda>reason.
     thenE (getField biasAnalysis ''keyIndicators'') (\<lambda>indicators.
       Inr \<lparr>biasScore = clampedScore,
            biasLabel = js_or label (JStr ''Neutral/Centrist''),
            confidence = clampedConf,
            reasoning = js_or reason (JStr ''AI-powered bias analysis completed''),
            keyIndicators = js_or indicators (JArr []),
            sourceReliability = JUndefined,
            analysisMethod = ''CTN AI-powered primary analysis''\<rparr>)))))))"

definition sourceCacheKey :: "string \<Rightarrow> string" where
  "sourceCacheKey source =
     ''ctn_source_bias_'' @
     map (\<lambda>c. if c \<in> set ''abcdefghijklmnopqrstuvwxyz0123456789'' then c else CHR ''_'')
       (toLowerCase source)"

definition combinedResult :: "(real \<Rightarrow> string) \<Rightarrow> jsval \<Rightarrow> jsval \<Rightarrow> js_error + BiasAnalysis" where
  \<comment> \<open>the object that tier 2 returns, from the source analysis and the content analysis\<close>
  "combinedResult nts sourceAnalysis contentAnalysis =
     thenE (getField contentAnalysis ''finalBiasScore'') (\<lambda>finalScore.
     thenE (getField sourceAnalysis ''biasScore'') (\<lambda>sourceScore.
     thenE (clamp 0 100 (js_or (js_or finalScore sourceScore) (JNum 50))) (\<lambda>clampedScore.
     thenE (getField contentAnalysis ''finalBiasLabel'') (\<lambda>finalLabel.
     thenE (getField sourceAnalysis ''biasLabel'') (\<lambda>sourceLabel.
     thenE (getField contentAnalysis ''confidence'') (\<lambda>contentConf.
     thenE (getField sourceAnalysis ''confidence'') (\<lambda>sourceConf.
     thenE (clamp 0 1 (js_or (js_or contentConf sourceConf) (JNum 0.5))) (\<lambda>clampedConf.
     thenE (getField sourceAnalysis ''reasoning'') (\<lambda>sourceReason.
     thenE (ToString nts (js_or sourceReason (JStr ''Source analysis completed''))) (\<lambda>sourceText.
     thenE (getField contentAnalysis ''reasoning'') (\<lambda>contentReason.
     thenE (ToString nts (js_or contentReason (JStr ''Content analysis completed''))) (\<lambda>contentText.
     thenE (getField sourceAnalysis ''keyIndicators'') (\<lambda>sourceIndicators.
     thenE (spread (js_or sourceIndicators (JArr []))) (\<lambda>sourceList.
     thenE (getField contentAnalysis ''keyIndicators'') (\<lambda>contentIndicators.
     thenE (spread (js_or contentIndicators (JArr []))) (\<lambda>contentList.
     thenE (getField sourceAnalysis ''sourceReliability'') (\<lambda>reliability.
       Inr \<lparr>biasScore = clampedScore,
            biasLabel = js_or (js_or finalLabel sourceLabel) (JStr ''Neutral/Centrist''),
            confidence = clampedConf,
            reasoning = JStr (sourceText @ ''. '' @ contentText),
            keyIndicators = JArr (sourceList @ contentList),
            sourceReliability = js_or reliability (JStr ''Medium''),
            analysisMethod = ''CTN AI-powered real-time source and content assessment''\<rparr>
     )))))))))))))))))"

definition sourceAnalysisStep ::
  "(llm_call \<Rightarrow> llm_reply) \<Rightarrow> ctn_state \<Rightarrow> string \<Rightarrow> (js_error + jsval) \<times> ctn_state" where
  \<comment> \<open>the analysis of the source: from the cache when a truthy entry is there, else from
      a call to the language model, whose parsed reply is cached\<close>
  "sourceAnalysisStep llm st source =
     (let key = sourceCacheKey source;
          cached = (case source_cache st key of None \<Rightarrow> JUndefined | Some v \<Rightarrow> v)
      in if truthy cached then (Inr cached, st)
         else
           let st1 = log_event (Llm SourceCall) st in
           (case reply_value (llm SourceCall) of
              Inl e \<Rightarrow> (Inl e, st1)
            | Inr sourceAnalysis \<Rightarrow>
                (Inr sourceAnalysis,
                 st1\<lparr>source_cache := (source_cache st1)(key \<mapsto> sourceAnalysis)\<rparr>)))"

definition contentPromptValues :: "(real \<Rightarrow> string) \<Rightarrow> jsval \<Rightarrow> js_error + string \<times> string" where
  \<comment> \<open>the two values of the source analysis that the second prompt interpolates\<close>
  "contentPromptValues nts sourceAnalysis =
     thenE (getField sourceAnalysis ''biasLabel'') (\<lambda>label.
     thenE (ToString nts label) (\<lambda>labelText.
     thenE (getField sourceAnalysis ''biasScore'') (\<lambda>score.
     thenE (ToString nts score) (\<lambda>scoreText. Inr (labelText, scoreText)))))"

definition sourceBasedAttempt ::
  "runtime \<Rightarrow> (llm_call \<Rightarrow> llm_reply) \<Rightarrow> ctn_state \<Rightarrow> string \<Rightarrow>
     (js_error + BiasAnalysis) \<times> ctn_state" where
  \<comment> \<open>the \<open>try\<close> block of \<open>ctnGetSourceBasedBiasAnalysis\<close>\<close>
  "sourceBasedAttempt rt llm st source =
     (case sourceAnalysisStep llm st source of
        (Inl e, st1) \<Rightarrow> (Inl e, st1)
      | (Inr sourceAnalysis, st1) \<Rightarrow>
          (case contentPromptValues (Number_toString rt) sourceAnalysis of
             Inl e \<Rightarrow> (Inl e, st1)
           | Inr _ \<Rightarrow>
               let st2 = log_event (Llm ContentCall) st1 in
               (case reply_value (llm ContentCall) of
                  Inl e \<Rightarrow> (Inl e, st2)
                | Inr contentAnalysis \<Rightarrow>
                    (combinedResult (Number_toString rt) sourceAnalysis contentAnalysis, st2))))"

definition ctnGetSourceBasedBiasAnalysis ::
  "runtime \<Rightarrow> (llm_call \<Rightarrow> llm_reply) \<Rightarrow> (nat \<Rightarrow> real) \<Rightarrow> ctn_state \<Rightarrow>
     string \<Rightarrow> string \<Rightarrow> string \<Rightarrow> (js_error + BiasAnalysis) \<times> ctn_state" where
  "ctnGetSourceBasedBiasAnalysis rt llm rnd st source title content =
     (case sourceBasedAttempt rt llm (log_event EnterTier2 st) source of
        (Inr result, st1) \<Rightarrow> (Inr result, st1)
      | (Inl e, st1) \<Rightarrow>
          (ctnAnalyzeContentBasedBias rnd title content source, log_event EnterTier3 st1))"

definition primaryAttempt :: "(llm_call \<Rightarrow> llm_reply) \<Rightarrow> js_error + BiasAnalysis" where
  \<comment> \<open>the \<open>try\<close> block of \<open>ctnAnalyzePoliticalBias\<close> past the cache: the call, the parsing
      and the building of the result\<close>
  "primaryAttempt llm = thenE (reply_value (llm PrimaryCall)) primaryResult"

definition ctnAnalyzePoliticalBias ::
  "runtime \<Rightarrow> (llm_call \<Rightarrow> llm_reply) \<Rightarrow> (nat \<Rightarrow> real) \<Rightarrow> ctn_state \<Rightarrow>
     string \<Rightarrow> string \<Rightarrow> string \<Rightarrow> (js_error + BiasAnalysis) \<times> ctn_state" where
  "ctnAnalyzePoliticalBias rt llm rnd st content title source =
     (let cacheKey = ''ctn_bias_'' @ take 50 (base64 rt content) in
      case bias_cache st cacheKey of
        Some cached \<Rightarrow> (Inr cached, st)
      | None \<Rightarrow>
          let st1 = log_event (Llm PrimaryCall) st in
          (case primaryAttempt llm of
             Inr result \<Rightarrow> (Inr result, st1\<lparr>bias_cache := (bias_cache st1)(cacheKey \<mapsto> result)\<rparr>)
           | Inl e \<Rightarrow> ctnGetSourceBasedBiasAnalysis rt llm rnd st1 source title content))"

section \<open>Article retrieval\<close>

text \<open>
  One hit of the search provider. The provider's contract gives every hit a \<open>url\<close>; the
  other fields may be missing.
\<close>

record exa_result =
  r_url :: string
  r_title :: "string option"
  r_text :: "string option"
  r_summary :: "string option"
  r_publishedDate :: "string option"
  r_author :: "string option"
  r_image :: "string option"
  r_imageUrl :: "string option"
  r_featuredImage :: "string option"
  r_thumbnail :: "string option"

text \<open>
  The four searches run under \<open>Promise.all\<close>, raced against the timer of ten seconds:
  either the race is lost or one search fails, or the four results arrive. A result may
  lack its list of hits.
\<close>

datatype exa_outcome = ExaFailed | ExaResults "exa_result list option list"

definition str_or :: "string option \<Rightarrow> string option \<Rightarrow> string option" where
  \<comment> \<open>\<open>a || b\<close> on strings that may be missing: a missing and an empty string are falsy\<close>
  "str_or a b = (case a of None \<Rightarrow> b | Some x \<Rightarrow> if x \<noteq> [] then Some x else b)"

definition str_default :: "string option \<Rightarrow> string \<Rightarrow> string" where
  "str_default a d = (case a of None \<Rightarrow> d | Some x \<Rightarrow> if x \<noteq> [] then x else d)"

fun replace_first :: "string \<Rightarrow> string \<Rightarrow> string" where
  \<comment> \<open>\<open>s.replace(p, '')\<close> for a text \<open>p\<close>: the first occurrence goes\<close>
  "replace_first p [] = []"
| "replace_first p (c # cs) =
     (if starts_with p (c # cs) then drop (length p) (c # cs) else c # replace_first p cs)"

definition ctnExtractSourceDomain :: "runtime \<Rightarrow> string \<Rightarrow> string" where
  "ctnExtractSourceDomain rt u =
     (case URL_hostname rt u of
        None \<Rightarrow> ''Unknown Source''
      | Some domain \<Rightarrow> takeWhile (\<lambda>c. c \<noteq> CHR ''.'') (replace_first ''www.'' domain))"

fun removeDuplicateUrls :: "string set \<Rightarrow> exa_result list \<Rightarrow> exa_result list" where
  \<comment> \<open>the \<open>filter\<close> over \<open>allResults\<close>, with the set \<open>seenUrls\<close> it fills as it goes\<close>
  "removeDuplicateUrls seenUrls [] = []"
| "removeDuplicateUrls seenUrls (result # rest) =
     (if r_url result \<in> seenUrls then removeDuplicateUrls seenUrls rest
      else result # removeDuplicateUrls (insert (r_url result) seenUrls) rest)"

definition mergeResults :: "exa_result list option list \<Rightarrow> exa_result list" where
  \<comment> \<open>the \<open>forEach\<close> that fills \<open>allResults\<close>: the hits of every result that has some, in order\<close>
  "mergeResults searchResults =
     concat (map (\<lambda>searchResult. case searchResult of None \<Rightarrow> [] | Some rs \<Rightarrow> rs) searchResults)"


definition slice0 :: "'a list \<Rightarrow> jsnum \<Rightarrow> 'a list" where
  \<comment> \<open>\<open>xs.slice(0, limit)\<close>: NaN counts as 0, a fraction is cut off, a negative end counts
      from the back\<close>
  "slice0 xs limit =
     (case limit of
        NaN \<Rightarrow> []
      | NegInf \<Rightarrow> []
      | PosInf \<Rightarrow> xs
      | Fin r \<Rightarrow>
          let k = (if 0 \<le> r then \<lfloor>r\<rfloor> else \<lceil>r\<rceil>)
          in if k < 0 then take (nat (int (length xs) + k)) xs else take (nat k) xs)"

definition toArticle :: "runtime \<Rightarrow> int \<Rightarrow> exa_result \<Rightarrow> article" where
  \<comment> \<open>a hit in the service's format; \<open>now\<close> is the clock, in milliseconds\<close>
  "toArticle rt now result =
     \<lparr>art_title = str_default (r_title result) ''Untitled Article'',
      art_content = str_default (str_or (r_text result) (r_summary result)) ''No content available'',
      art_source = ctnExtractSourceDomain rt (r_url result),
      art_url = r_url result,
      art_publishedAt =
        (case str_or (r_publishedDate result) None of None \<Rightarrow> IsoOf now | Some d \<Rightarrow> Given d),
      art_author = str_or (r_author result) None,
      art_imageUrl =
        str_default
          (str_or (str_or (str_or (r_image result) (r_imageUrl result)) (r_featuredImage result))
             (r_thumbnail result))
          ''https://images.unsplash.com/photo-1504711434969-e33886168f5c?w=800&h=600&fit=crop&crop=center''\<rparr>"

definition fallbackArticles :: "int \<Rightarrow> article list" where
  \<comment> \<open>the five articles that the \<open>catch\<close> block of the search builds\<close>
  "fallbackArticles now =
    [\<lparr>art_title = ''Breaking: Major Tech Companies Announce AI Safety Initiative'',
      art_content = ''Leading technology companies have announced a comprehensive AI safety initiative aimed at ensuring responsible development of artificial intelligence systems. The collaboration involves establishing shared safety standards, conducting joint research on AI alignment, and creating transparent reporting mechanisms for AI development milestones. Industry experts view this as a crucial step toward preventing potential risks associated with advanced AI systems while promoting innovation in the field.'',
      art_source = ''TechNews Daily'',
      art_url = ''https://example.com/ai-safety-initiative'',
      art_publishedAt = IsoOf (now - 2 * 60 * 60 * 1000),
      art_author = Some ''Sarah Mitchell'',
      art_imageUrl = ''https://images.unsplash.com/photo-1677442136019-21780ecad995?w=800&h=600&fit=crop&crop=center''\<rparr>,
     \<lparr>art_title = ''Climate Scientists Report Breakthrough in Carbon Capture Technology'',
      art_content = ''Researchers have developed a revolutionary carbon capture system that can remove CO2 from the atmosphere at unprecedented efficiency rates. The new technology combines advanced materials science with AI-powered optimization to achieve 90% capture efficiency while significantly reducing energy costs. The breakthrough could play a crucial role in meeting global climate targets and represents a major advancement in the fight against climate change.'',
      art_source = ''Environmental Science Today'',
      art_url = ''https://example.com/carbon-capture-breakthrough'',
      art_publishedAt = IsoOf (now - 4 * 60 * 60 * 1000),
      art_author = Some ''Dr. Michael Chen'',
      art_imageUrl = ''https://images.unsplash.com/photo-1569163139394-de4e5f43e4e3?w=800&h=600&fit=crop&crop=center''\<rparr>,
     \<lparr>art_title = ''Global Markets React to New Economic Policy Announcements'',
      art_content = ''International financial markets showed mixed reactions to recent economic policy announcements from major central banks. While some sectors experienced volatility, others demonstrated resilience as investors analyze the implications of changing monetary policies. Economic analysts suggest that market uncertainty reflects broader concerns about inflation, interest rates, and global economic stability in the coming quarters.'',
      art_source = ''Financial Review'',
      art_url = ''https://example.com/market-reaction-policy'',
      art_publishedAt = IsoOf (now - 6 * 60 * 60 * 1000),
      art_author = Some ''Jennifer Rodriguez'',
      art_imageUrl = ''https://images.unsplash.com/photo-1611974789855-9c2a0a7236a3?w=800&h=600&fit=crop&crop=center''\<rparr>,
     \<lparr>art_title = ''Medical Research: New Drug Shows Promise in Alzheimer's Treatment'',
      art_content = ''Clinical trials for a new Alzheimer's treatment have shown promising results, with patients experiencing significant improvements in cognitive function and memory retention. The drug targets specific proteins associated with the disease and has demonstrated fewer side effects compared to existing treatments. Medical experts are cautiously optimistic about the potential for this treatment to provide new hope for millions of Alzheimer's patients worldwide.'',
      art_source = ''Medical Journal Weekly'',
      art_url = ''https://example.com/alzheimers-drug-trial'',
      art_publishedAt = IsoOf (now - 8 * 60 * 60 * 1000),
      art_author = Some ''Dr. Amanda Foster'',
      art_imageUrl = ''https://images.unsplash.com/photo-1582719508461-905c673771fd?w=800&h=600&fit=crop&crop=center''\<rparr>,
     \<lparr>art_title = ''Space Exploration: International Collaboration on Mars Mission Announced'',
      art_content = ''Space agencies from multiple countries have announced an ambitious collaborative mission to Mars, aimed at establishing a sustainable human presence on the Red Planet. The mission involves advanced life support systems, habitat construction, and resource utilization technologies. Scientists believe this international cooperation represents a significant milestone in space exploration and could pave the way for future interplanetary settlements.'',
      art_source = ''Space Technology Review'',
      art_url = ''https://example.com/mars-mission-collaboration'',
      art_publishedAt = IsoOf (now - 10 * 60 * 60 * 1000),
      art_author = Some ''Dr. James Parker'',
      art_imageUrl = ''https://images.unsplash.com/photo-1446776653964-20c1d3a81b06?w=800&h=600&fit=crop&crop=center''\<rparr>]"

definition num_text :: "runtime \<Rightarrow> jsnum \<Rightarrow> string" where
  \<comment> \<open>the text of a number inside a template\<close>
  "num_text rt x =
     (case x of NaN \<Rightarrow> ''NaN'' | NegInf \<Rightarrow> ''-Infinity'' | PosInf \<Rightarrow> ''Infinity''
      | Fin r \<Rightarrow> Number_toString rt r)"

definition newsCacheKey :: "runtime \<Rightarrow> string \<Rightarrow> string \<Rightarrow> jsnum \<Rightarrow> string" where
  "newsCacheKey rt query sources limit =
     ''ctn_news_'' @ query @ ''_'' @ sources @ ''_'' @ num_text rt limit"

definition searchCatchBlock :: "int \<Rightarrow> ctn_state \<Rightarrow> (js_error + article list) \<times> ctn_state" where
  \<comment> \<open>the \<open>catch\<close> block of \<open>ctnSearchNewsArticles\<close>. It builds \<open>fallbackArticles\<close> and
      then evaluates \<open>ctnCache.set(cacheKey, fallbackArticles)\<close>; \<open>cacheKey\<close> is a \<open>const\<close>
      of the \<open>try\<close> block and is not in scope here, so the statement throws a
      ReferenceError before anything is stored or returned\<close>
  "searchCatchBlock now st = (let fallback = fallbackArticles now in (Inl ReferenceError, st))"

definition ctnSearchNewsArticles ::
  "runtime \<Rightarrow> int \<Rightarrow> exa_outcome \<Rightarrow> ctn_state \<Rightarrow> string \<Rightarrow> string \<Rightarrow> jsnum \<Rightarrow>
     (js_error + article list) \<times> ctn_state" where
  "ctnSearchNewsArticles rt now exa st query sources limit =
     (let cacheKey = newsCacheKey rt query sources limit in
      case news_cache st cacheKey of
        Some cached \<Rightarrow> (Inr cached, st)
      | None \<Rightarrow>
          let st1 = st\<lparr>trace := trace st @
                      [Exa LiberalSearch, Exa ConservativeSearch, Exa CenterSearch, Exa MixedSearch]\<rparr>
          in (case exa of
                ExaFailed \<Rightarrow> searchCatchBlock now st1
              | ExaResults searchResults \<Rightarrow>
                  let allResults = mergeResults searchResults;
                      uniqueResults = removeDuplicateUrls {} allResults;
                      articles = map (toArticle rt now) (slice0 uniqueResults limit)
                  in (Inr articles, st1\<lparr>news_cache := (news_cache st1)(cacheKey \<mapsto> articles)\<rparr>)))"

section \<open>The search endpoint\<close>

datatype 'p response_body =
    ErrorOnly string
  | ErrorWithMessage string js_error
  | NoArticles string jsval
  | ArticleList "'p list" jsval nat timestamp

record 'p response =
  status :: nat
  body :: "'p response_body"

text \<open>
  The handler of \<open>GET /search\<close>. Express parses the query string: a parameter is
  missing (\<open>JUndefined\<close> here), a text, or, when it is repeated or written with
  brackets, an array or an object of such values. The whole handler is one \<open>try\<close> block,
  so a conversion that throws ends in the answer 500. The guard compares the limit, as a
  number, with 20; the query is then interpolated into the log line, the limit goes
  through \<open>parseInt\<close>, which reads its text, and the search gets the query, whose text is
  all it uses here. The articles are processed under \<open>Promise.all\<close>, all at once; what
  that yields is given by the argument \<open>processAll\<close>.
\<close>

definition parsedLimit :: "runtime \<Rightarrow> jsval \<Rightarrow> js_error + jsnum" where
  \<comment> \<open>\<open>parseInt(limit)\<close>: of the default 10 when the parameter is missing, else of the
      parameter's text\<close>
  "parsedLimit rt limitParam =
     (if limitParam = JUndefined then Inr (Fin 10)
      else thenE (ToString (Number_toString rt) limitParam) (\<lambda>limitText. Inr (parseInt limitText)))"

definition searchRoute ::
  "runtime \<Rightarrow> int \<Rightarrow> exa_outcome \<Rightarrow>
   (ctn_state \<Rightarrow> article list \<Rightarrow> (js_error + 'p list) \<times> ctn_state) \<Rightarrow>
   ctn_state \<Rightarrow> jsval \<Rightarrow> jsval \<Rightarrow> 'p response \<times> ctn_state" where
  "searchRoute rt now exa processAll st queryParam limitParam =
     (let query = (if queryParam = JUndefined then JStr ''latest news'' else queryParam);
          limit = (if limitParam = JUndefined then JNum 10 else limitParam)
      in
      case ToNumber limit of
        Inl e \<Rightarrow>
          (\<lparr>status = 500, body = ErrorWithMessage ''Failed to search news articles'' e\<rparr>, st)
      | Inr limitNumber \<Rightarrow>
          if num_gt limitNumber (Fin 20)
          then (\<lparr>status = 400, body = ErrorOnly ''Limit cannot exceed 20 articles''\<rparr>, st)
          else
            (case thenE (ToString (Number_toString rt) query) (\<lambda>queryText.
                  thenE (parsedLimit rt limitParam) (\<lambda>parsed. Inr (queryText, parsed))) of
               Inl e \<Rightarrow>
                 (\<lparr>status = 500, body = ErrorWithMessage ''Failed to search news articles'' e\<rparr>,
                  st)
             | Inr (queryText, parsed) \<Rightarrow>
                 (case ctnSearchNewsArticles rt now exa st queryText [] parsed of
                    (Inl e, st1) \<Rightarrow>
                      (\<lparr>status = 500,
                        body = ErrorWithMessage ''Failed to search news articles'' e\<rparr>, st1)
                  | (Inr articles, st1) \<Rightarrow>
                      if articles = [] then
                        (\<lparr>status = 200,
                          body = NoArticles ''No articles found for your search query'' query\<rparr>,
                         st1)
                      else
                        (case processAll st1 articles of
                           (Inl e, st2) \<Rightarrow>
                             (\<lparr>status = 500,
                               body = ErrorWithMessage ''Failed to search news articles'' e\<rparr>,
                              st2)
                         | (Inr processedArticles, st2) \<Rightarrow>
                             (\<lparr>status = 200,
                               body = ArticleList processedArticles query
                                        (length processedArticles) (IsoOf now)\<rparr>, st2)))))"

section \<open>The rubric of the prompts\<close>

definition rubricLabel :: "int \<Rightarrow> string" where
  \<comment> \<open>the scale that both prompts give the language model: 0-20, 21-40, 41-60, 61-80 and
      81-100\<close>
  "rubricLabel k =
     (if k \<le> 20 then ''Highly Liberal''
      else if k \<le> 40 then ''Liberal''
      else if k \<le> 60 then ''Neutral/Centrist''
      else if k \<le> 80 then ''Conservative''
      else ''Highly Conservative'')"

text \<open>
  The score ranges that go with each label in the keyword heuristic, which draws the line
  between a plain and a \<open>Highly\<close> label at 25 and 75.
\<close>

definition label_range :: "string \<Rightarrow> int \<Rightarrow> bool" where
  "label_range lab k =
     (lab = ''Highly Liberal'' \<and> 15 \<le> k \<and> k \<le> 25
      \<or> lab = ''Liberal'' \<and> 25 \<le> k \<and> k \<le> 40
      \<or> lab = ''Neutral/Centrist'' \<and> k = 50
      \<or> lab = ''Conservative'' \<and> 61 \<le> k \<and> k \<le> 75
      \<or> lab = ''Highly Conservative'' \<and> 75 \<le> k \<and> k \<le> 85)"


section \<open>Properties of the keyword heuristic\<close>

lemma keywordScore_plain:
  "list_all plain_pattern kws \<Longrightarrow> \<exists>n. keywordScore kws t c = Inr n"
  by (induction kws) (auto simp: thenE_def regexp_match_count_def)

lemma liberalKeywords_plain: "list_all plain_pattern liberalKeywords"
  by code_simp

lemma conservativeKeywords_plain: "list_all plain_pattern conservativeKeywords"
  by code_simp

lemma neutralKeywords_plain: "list_all plain_pattern neutralKeywords"
  by code_simp

lemma tier3_unfold:
  assumes "keywordScore liberalKeywords (toLowerCase title) (toLowerCase content) = Inr l0"
    and "keywordScore conservativeKeywords (toLowerCase title) (toLowerCase content) = Inr c0"
    and "keywordScore neutralKeywords (toLowerCase title) (toLowerCase content) = Inr n"
  obtains l c m t where
    "m = 0 \<and> l = l0 \<and> c = c0 \<or> m = - 25 \<and> l = l0 + 10 \<and> c = c0 \<or> m = 25 \<and> l = l0 \<and> c = c0 + 10"
    "m = 0 \<longleftrightarrow> \<not> list_ex (str_includes (toLowerCase source)) liberalSources
            \<and> \<not> list_ex (str_includes (toLowerCase source)) conservativeSources"
    "ctnAnalyzeContentBasedBias rnd title content source =
       Inr \<lparr>biasScore = Fin (Math_round (fst (contentBiasDecision rnd (real l) (real c) (real n) m))),
            biasLabel = JStr (fst (snd (contentBiasDecision rnd (real l) (real c) (real n) m))),
            confidence = Fin (snd (snd (contentBiasDecision rnd (real l) (real c) (real n) m))),
            reasoning = JStr t,
            keyIndicators =
              JArr [JStr ''content-analysis'', JStr ''keyword-detection'',
                    JStr ''linguistic-patterns''],
            sourceReliability = JStr ''Unknown'',
            analysisMethod = ''CTN content-based linguistic analysis''\<rparr>"
proof -
  let ?lib = "list_ex (str_includes (toLowerCase source)) liberalSources"
  let ?con = "list_ex (str_includes (toLowerCase source)) conservativeSources"
  show ?thesis
  proof (cases ?lib)
    case True
    show ?thesis
      by (rule that[of "- 25" "l0 + 10" c0])
         (use True assms in \<open>simp_all add: ctnAnalyzeContentBasedBias_def thenE_def Let_def\<close>)
  next
    case nl: False
    show ?thesis
    proof (cases ?con)
      case True
      show ?thesis
        by (rule that[of 25 l0 "c0 + 10"])
           (use nl True assms in \<open>simp_all add: ctnAnalyzeContentBasedBias_def thenE_def Let_def\<close>)
    next
      case False
      show ?thesis
        by (rule that[of 0 l0 c0])
           (use nl False assms in \<open>simp_all add: ctnAnalyzeContentBasedBias_def thenE_def Let_def\<close>)
    qed
  qed
qed

lemma liberal_branch_bounds:
  fixes x :: real
  defines "d \<equiv> max 0.3 x"
  shows "15 \<le> max 15 (50 - (d * 35))" "max 15 (50 - (d * 35)) \<le> 39.5"
    "0.675 \<le> min 0.85 (0.6 + (d * 0.25))" "min 0.85 (0.6 + (d * 0.25)) \<le> 0.85"
proof -
  have "0.3 \<le> d" by (simp add: d_def)
  then show "15 \<le> max 15 (50 - (d * 35))" "max 15 (50 - (d * 35)) \<le> 39.5"
    "0.675 \<le> min 0.85 (0.6 + (d * 0.25))" "min 0.85 (0.6 + (d * 0.25)) \<le> 0.85"
    by (simp_all add: min_def max_def)
qed

lemma conservative_branch_bounds:
  fixes x :: real
  defines "d \<equiv> max 0.3 x"
  shows "60.5 \<le> min 85 (50 + (d * 35))" "min 85 (50 + (d * 35)) \<le> 85"
proof -
  have "0.3 \<le> d" by (simp add: d_def)
  then show "60.5 \<le> min 85 (50 + (d * 35))" "min 85 (50 + (d * 35)) \<le> 85"
    by (simp_all add: min_def max_def)
qed

lemma decision_cases:
  fixes l c n m :: real
  obtains
    (liberal) x where "0 < l + c" "c < l \<or> m < 0"
      "contentBiasDecision rnd l c n m =
         (max 15 (50 - (max 0.3 x * 35)),
          if max 15 (50 - (max 0.3 x * 35)) \<le> 25 then ''Highly Liberal'' else ''Liberal'',
          min 0.85 (0.6 + (max 0.3 x * 0.25)))"
  | (conservative) x where "0 < l + c" "\<not> (c < l \<or> m < 0)" "l < c \<or> 0 < m"
      "contentBiasDecision rnd l c n m =
         (min 85 (50 + (max 0.3 x * 35)),
          if 75 \<le> min 85 (50 + (max 0.3 x * 35)) then ''Highly Conservative'' else ''Conservative'',
          min 0.85 (0.6 + (max 0.3 x * 0.25)))"
  | (balanced) "0 < l + c" "l = c" "m = 0"
      "contentBiasDecision rnd l c n m = (50, ''Neutral/Centrist'', 0.6)
       \<or> contentBiasDecision rnd l c n m = (35, ''Liberal'', 0.6)
       \<or> contentBiasDecision rnd l c n m = (65, ''Conservative'', 0.6)"
  | (nokeywords) "\<not> 0 < l + c"
      "contentBiasDecision rnd l c n m = (50 + m, ''Neutral/Centrist'', 0.5)
       \<or> contentBiasDecision rnd l c n m = (35, ''Liberal'', 0.5)
       \<or> contentBiasDecision rnd l c n m = (65, ''Conservative'', 0.5)"
proof (cases "0 < l + c")
  case False
  then have "contentBiasDecision rnd l c n m = (50 + m, ''Neutral/Centrist'', 0.5)
       \<or> contentBiasDecision rnd l c n m = (35, ''Liberal'', 0.5)
       \<or> contentBiasDecision rnd l c n m = (65, ''Conservative'', 0.5)"
    by (simp add: contentBiasDecision_def Let_def)
  with False show ?thesis by (rule nokeywords)
next
  case pos: True
  show ?thesis
  proof (cases "c < l \<or> m < 0")
    case True
    with pos show ?thesis
      by (intro liberal[of "(l + \<bar>m\<bar>) / max 1 (l + c + 10)"])
         (simp_all add: contentBiasDecision_def Let_def)
  next
    case notlib: False
    show ?thesis
    proof (cases "l < c \<or> 0 < m")
      case True
      with pos notlib show ?thesis
        by (intro conservative[of "(c + \<bar>m\<bar>) / max 1 (l + c + 10)"])
           (simp_all add: contentBiasDecision_def Let_def)
    next
      case False
      with notlib have eq: "l = c" "m = 0" by auto
      from pos notlib False
      have "contentBiasDecision rnd l c n m = (50, ''Neutral/Centrist'', 0.6)
       \<or> contentBiasDecision rnd l c n m = (35, ''Liberal'', 0.6)
       \<or> contentBiasDecision rnd l c n m = (65, ''Conservative'', 0.6)"
        unfolding eq by (simp add: contentBiasDecision_def Let_def)
      with pos eq show ?thesis by (rule balanced)
    qed
  qed
qed


lemma Math_round_bounds:
  assumes "of_int a \<le> x" and "x \<le> of_int b"
  shows "\<exists>k. Math_round x = of_int k \<and> a \<le> k \<and> k \<le> b"
proof -
  have "a \<le> \<lfloor>x + 1 / 2\<rfloor>" using assms(1) by (simp add: le_floor_iff)
  moreover have "\<lfloor>x + 1 / 2\<rfloor> \<le> b" using assms(2) by (simp add: floor_le_iff)
  ultimately show ?thesis by (auto simp: Math_round_def)
qed

lemma decision_bounds:
  fixes l c n m :: real and rnd :: "nat \<Rightarrow> real"
  assumes "m = 0 \<or> (m = - 25 \<or> m = 25) \<and> 10 \<le> l + c"
  defines "D \<equiv> contentBiasDecision rnd l c n m"
  shows "15 \<le> fst D" "fst D \<le> 85" "1 / 2 \<le> snd (snd D)" "snd (snd D) \<le> 0.85"
    "fst (snd D) \<in> {''Highly Liberal'', ''Liberal'', ''Neutral/Centrist'', ''Conservative'',
       ''Highly Conservative''}"
proof -
  have "15 \<le> fst D \<and> fst D \<le> 85 \<and> 1 / 2 \<le> snd (snd D) \<and> snd (snd D) \<le> 0.85
    \<and> fst (snd D) \<in> {''Highly Liberal'', ''Liberal'', ''Neutral/Centrist'', ''Conservative'',
       ''Highly Conservative''}"
  proof (cases rule: decision_cases[of l c m rnd n])
    case (liberal x)
    from liberal_branch_bounds[of x] show ?thesis
      unfolding D_def liberal(3) by simp
  next
    case (conservative x)
    from conservative_branch_bounds[of x] liberal_branch_bounds(3,4)[of x] show ?thesis
      unfolding D_def conservative(4) by simp
  next
    case balanced
    then show ?thesis unfolding D_def by auto
  next
    case nokeywords
    with assms(1) have "m = 0" by auto
    with nokeywords(2) show ?thesis unfolding D_def by auto
  qed
  then show "15 \<le> fst D" "fst D \<le> 85" "1 / 2 \<le> snd (snd D)" "snd (snd D) \<le> 0.85"
    "fst (snd D) \<in> {''Highly Liberal'', ''Liberal'', ''Neutral/Centrist'', ''Conservative'',
       ''Highly Conservative''}" by simp_all
qed

text \<open>
  Claim C3. For every title, content and source, and whatever \<open>Math.random\<close> returns, the
  keyword heuristic throws nothing and returns a well-formed analysis: the score is a
  number (an integer from 15 to 85), the label is one of the five label texts, the
  confidence is a number (from 0.5 to 0.85), the reasoning is a text, the key indicators
  are the list of three fixed texts and the method tag is that of the heuristic.
\<close>

theorem keyword_tier_returns_wellformed:
  "\<exists>r. ctnAnalyzeContentBasedBias rnd title content source = Inr r
     \<and> (\<exists>k::int. biasScore r = Fin (of_int k) \<and> 15 \<le> k \<and> k \<le> 85)
     \<and> (\<exists>lab. biasLabel r = JStr lab
          \<and> lab \<in> {''Highly Liberal'', ''Liberal'', ''Neutral/Centrist'', ''Conservative'',
                    ''Highly Conservative''})
     \<and> (\<exists>c. confidence r = Fin c \<and> 1 / 2 \<le> c \<and> c \<le> 0.85)
     \<and> (\<exists>t. reasoning r = JStr t)
     \<and> keyIndicators r =
         JArr [JStr ''content-analysis'', JStr ''keyword-detection'', JStr ''linguistic-patterns'']
     \<and> analysisMethod r = ''CTN content-based linguistic analysis''"
proof -
  obtain l0 where l0: "keywordScore liberalKeywords (toLowerCase title) (toLowerCase content) = Inr l0"
    using keywordScore_plain[OF liberalKeywords_plain] by blast
  obtain c0 where c0: "keywordScore conservativeKeywords (toLowerCase title) (toLowerCase content) = Inr c0"
    using keywordScore_plain[OF conservativeKeywords_plain] by blast
  obtain n where n: "keywordScore neutralKeywords (toLowerCase title) (toLowerCase content) = Inr n"
    using keywordScore_plain[OF neutralKeywords_plain] by blast
  from l0 c0 n obtain l c m t where
    m: "m = 0 \<and> l = l0 \<and> c = c0 \<or> m = - 25 \<and> l = l0 + 10 \<and> c = c0 \<or> m = 25 \<and> l = l0 \<and> c = c0 + 10"
    and r: "ctnAnalyzeContentBasedBias rnd title content source =
       Inr \<lparr>biasScore = Fin (Math_round (fst (contentBiasDecision rnd (real l) (real c) (real n) m))),
            biasLabel = JStr (fst (snd (contentBiasDecision rnd (real l) (real c) (real n) m))),
            confidence = Fin (snd (snd (contentBiasDecision rnd (real l) (real c) (real n) m))),
            reasoning = JStr t,
            keyIndicators =
              JArr [JStr ''content-analysis'', JStr ''keyword-detection'',
                    JStr ''linguistic-patterns''],
            sourceReliability = JStr ''Unknown'',
            analysisMethod = ''CTN content-based linguistic analysis''\<rparr>"
    by (rule tier3_unfold[where source = source and rnd = rnd]) blast
  from m have pre: "m = 0 \<or> (m = - 25 \<or> m = 25) \<and> 10 \<le> real l + real c" by auto
  note b = decision_bounds[OF pre, of rnd "real n"]
  from b(1,2) have "\<exists>k. Math_round (fst (contentBiasDecision rnd (real l) (real c) (real n) m)) = of_int k
      \<and> 15 \<le> k \<and> k \<le> 85"
    by (intro Math_round_bounds) simp_all
  with b(3,4,5) show ?thesis unfolding r by simp
qed






lemma Math_round_half_bounds:
  assumes "of_int a - 1 / 2 \<le> x" and "x < of_int b + 1 / 2"
  shows "\<exists>k. Math_round x = of_int k \<and> a \<le> k \<and> k \<le> b"
proof -
  have "a \<le> \<lfloor>x + 1 / 2\<rfloor>" using assms(1) by (simp add: le_floor_iff)
  moreover have "\<lfloor>x + 1 / 2\<rfloor> \<le> b" using assms(2) by (simp add: floor_le_iff)
  ultimately show ?thesis by (auto simp: Math_round_def)
qed

lemma fixed_outcome:
  assumes "D = (of_int k, lab, cf)" and "label_range lab k"
  shows "\<exists>k. Math_round (fst D) = of_int k \<and> label_range (fst (snd D)) k"
  using assms by (auto simp: Math_round_def)

lemma decision_label_score:
  fixes l c n m :: real and rnd :: "nat \<Rightarrow> real"
  assumes "m = 0 \<or> (m = - 25 \<or> m = 25) \<and> 10 \<le> l + c"
  defines "D \<equiv> contentBiasDecision rnd l c n m"
  shows "\<exists>k. Math_round (fst D) = of_int k \<and> label_range (fst (snd D)) k"
proof (cases rule: decision_cases[of l c m rnd n])
  case (liberal x)
  define s where "s = max 15 (50 - (max 0.3 x * 35))"
  have b: "15 \<le> s" "s \<le> 39.5"
    using liberal_branch_bounds(1,2)[of x] by (simp_all add: s_def)
  have D: "D = (s, if s \<le> 25 then ''Highly Liberal'' else ''Liberal'',
                min 0.85 (0.6 + (max 0.3 x * 0.25)))"
    unfolding D_def liberal(3) s_def ..
  show ?thesis
  proof (cases "s \<le> 25")
    case True
    have "\<exists>k. Math_round s = of_int k \<and> 15 \<le> k \<and> k \<le> 25"
      by (rule Math_round_half_bounds) (use b True in simp_all)
    with True show ?thesis unfolding D by (auto simp: label_range_def)
  next
    case False
    have "\<exists>k. Math_round s = of_int k \<and> 25 \<le> k \<and> k \<le> 40"
      by (rule Math_round_half_bounds) (use b False in simp_all)
    with False show ?thesis unfolding D by (auto simp: label_range_def)
  qed
next
  case (conservative x)
  define s where "s = min 85 (50 + (max 0.3 x * 35))"
  have b: "60.5 \<le> s" "s \<le> 85"
    using conservative_branch_bounds[of x] by (simp_all add: s_def)
  have D: "D = (s, if 75 \<le> s then ''Highly Conservative'' else ''Conservative'',
                min 0.85 (0.6 + (max 0.3 x * 0.25)))"
    unfolding D_def conservative(4) s_def ..
  show ?thesis
  proof (cases "75 \<le> s")
    case True
    have "\<exists>k. Math_round s = of_int k \<and> 75 \<le> k \<and> k \<le> 85"
      by (rule Math_round_half_bounds) (use b True in simp_all)
    with True show ?thesis unfolding D by (auto simp: label_range_def)
  next
    case False
    have "\<exists>k. Math_round s = of_int k \<and> 61 \<le> k \<and> k \<le> 75"
      by (rule Math_round_half_bounds) (use b False in simp_all)
    with False show ?thesis unfolding D by (auto simp: label_range_def)
  qed
next
  case balanced
  from balanced(4) consider (neutral) "D = (of_int 50, ''Neutral/Centrist'', 0.6)"
    | (left) "D = (of_int 35, ''Liberal'', 0.6)"
    | (right) "D = (of_int 65, ''Conservative'', 0.6)"
    unfolding D_def by auto
  then show ?thesis
  proof cases
    case neutral
    then show ?thesis by (rule fixed_outcome) (simp add: label_range_def)
  next
    case left
    then show ?thesis by (rule fixed_outcome) (simp add: label_range_def)
  next
    case right
    then show ?thesis by (rule fixed_outcome) (simp add: label_range_def)
  qed
next
  case nokeywords
  with assms(1) have m: "m = 0" by auto
  from nokeywords(2) m consider (neutral) "D = (of_int 50, ''Neutral/Centrist'', 0.5)"
    | (left) "D = (of_int 35, ''Liberal'', 0.5)"
    | (right) "D = (of_int 65, ''Conservative'', 0.5)"
    unfolding D_def by auto
  then show ?thesis
  proof cases
    case neutral
    then show ?thesis by (rule fixed_outcome) (simp add: label_range_def)
  next
    case left
    then show ?thesis by (rule fixed_outcome) (simp add: label_range_def)
  next
    case right
    then show ?thesis by (rule fixed_outcome) (simp add: label_range_def)
  qed
qed

section \<open>Labels and scores\<close>

lemma primaryResult_label:
  assumes "primaryResult v = Inr r"
  shows "\<exists>lab. getField v ''biasLabel'' = Inr lab \<and> biasLabel r = js_or lab (JStr ''Neutral/Centrist'')"
  using assms by (auto simp: primaryResult_def thenE_def split: sum.splits)

lemma combinedResult_label:
  assumes "combinedResult nts sa ca = Inr r"
  shows "\<exists>fl sl. getField ca ''finalBiasLabel'' = Inr fl \<and> getField sa ''biasLabel'' = Inr sl
           \<and> biasLabel r = js_or (js_or fl sl) (JStr ''Neutral/Centrist'')"
  using assms by (auto simp: combinedResult_def thenE_def split: sum.splits)

lemma tier3_label_score:
  "\<exists>r k lab. ctnAnalyzeContentBasedBias rnd title content source = Inr r
      \<and> biasScore r = Fin (of_int k) \<and> biasLabel r = JStr lab \<and> label_range lab k"
proof -
  obtain l0 where l0: "keywordScore liberalKeywords (toLowerCase title) (toLowerCase content) = Inr l0"
    using keywordScore_plain[OF liberalKeywords_plain] by blast
  obtain c0 where c0: "keywordScore conservativeKeywords (toLowerCase title) (toLowerCase content) = Inr c0"
    using keywordScore_plain[OF conservativeKeywords_plain] by blast
  obtain n where n: "keywordScore neutralKeywords (toLowerCase title) (toLowerCase content) = Inr n"
    using keywordScore_plain[OF neutralKeywords_plain] by blast
  from l0 c0 n obtain l c m t where
    m: "m = 0 \<and> l = l0 \<and> c = c0 \<or> m = - 25 \<and> l = l0 + 10 \<and> c = c0 \<or> m = 25 \<and> l = l0 \<and> c = c0 + 10"
    and r: "ctnAnalyzeContentBasedBias rnd title content source =
       Inr \<lparr>biasScore = Fin (Math_round (fst (contentBiasDecision rnd (real l) (real c) (real n) m))),
            biasLabel = JStr (fst (snd (contentBiasDecision rnd (real l) (real c) (real n) m))),
            confidence = Fin (snd (snd (contentBiasDecision rnd (real l) (real c) (real n) m))),
            reasoning = JStr t,
            keyIndicators =
              JArr [JStr ''content-analysis'', JStr ''keyword-detection'',
                    JStr ''linguistic-patterns''],
            sourceReliability = JStr ''Unknown'',
            analysisMethod = ''CTN content-based linguistic analysis''\<rparr>"
    by (rule tier3_unfold[where source = source and rnd = rnd]) blast
  from m have pre: "m = 0 \<or> (m = - 25 \<or> m = 25) \<and> 10 \<le> real l + real c" by auto
  from decision_label_score[OF pre, of rnd "real n"] show ?thesis unfolding r by auto
qed

text \<open>
  Claim C8, as amended. No tier derives the label from the score by the rubric. Tier 1
  returns the label that the language model reported, or Neutral/Centrist when that is
  falsy, whatever the score; tier 2 returns the content analysis's label, else the source
  analysis's, else Neutral/Centrist. The keyword heuristic keeps label and score on the
  same side, with its own lines at 25 and 75: Highly Liberal goes with a score from 15 to
  25, Liberal with 25 to 40, Neutral/Centrist with 50, Conservative with 61 to 75 and
  Highly Conservative with 75 to 85.
\<close>

theorem label_as_the_code_assigns_it:
  "(\<forall>r. primaryResult v = Inr r \<longrightarrow>
      (\<exists>lab. getField v ''biasLabel'' = Inr lab
         \<and> biasLabel r = js_or lab (JStr ''Neutral/Centrist'')))
   \<and> (\<forall>r. combinedResult nts sa ca = Inr r \<longrightarrow>
      (\<exists>fl sl. getField ca ''finalBiasLabel'' = Inr fl \<and> getField sa ''biasLabel'' = Inr sl
         \<and> biasLabel r = js_or (js_or fl sl) (JStr ''Neutral/Centrist'')))
   \<and> (\<exists>r k lab. ctnAnalyzeContentBasedBias rnd title content source = Inr r
         \<and> biasScore r = Fin (of_int k) \<and> biasLabel r = JStr lab \<and> label_range lab k)"
  using primaryResult_label combinedResult_label tier3_label_score by blast

lemma primary_90_liberal:
  "primaryResult (JObj [(''biasScore'', JNum 90), (''biasLabel'', JStr ''Liberal'')]) =
     Inr \<lparr>biasScore = Fin 90, biasLabel = JStr ''Liberal'', confidence = Fin 0.5,
          reasoning = JStr ''AI-powered bias analysis completed'', keyIndicators = JArr [],
          sourceReliability = JUndefined, analysisMethod = ''CTN AI-powered primary analysis''\<rparr>"
  by (simp add: primaryResult_def thenE_def clamp_def ToNumber_def js_or_def Math_min_def Math_max_def)

lemma combined_defaults:
  "combinedResult nts (JObj [(''biasLabel'', JStr ''Conservative'')]) (JObj []) =
     Inr \<lparr>biasScore = Fin 50, biasLabel = JStr ''Conservative'', confidence = Fin 0.5,
          reasoning = JStr ''Source analysis completed. Content analysis completed'',
          keyIndicators = JArr [], sourceReliability = JStr ''Medium'',
          analysisMethod = ''CTN AI-powered real-time source and content assessment''\<rparr>"
  by (simp add: combinedResult_def thenE_def clamp_def ToNumber_def ToString_def js_or_def
      Math_min_def Math_max_def)

theorem label_as_the_code_assigns_it_witness:
  "(\<exists>lab. getField (JObj [(''biasScore'', JNum 90), (''biasLabel'', JStr ''Liberal'')]) ''biasLabel''
             = Inr lab
        \<and> JStr ''Liberal'' = js_or lab (JStr ''Neutral/Centrist''))
   \<and> (\<exists>fl sl. getField (JObj []) ''finalBiasLabel'' = Inr fl
        \<and> getField (JObj [(''biasLabel'', JStr ''Conservative'')]) ''biasLabel'' = Inr sl
        \<and> JStr ''Conservative'' = js_or (js_or fl sl) (JStr ''Neutral/Centrist''))
   \<and> (\<exists>r k lab. ctnAnalyzeContentBasedBias (\<lambda>k. 0) ''Police report'' ''crime'' ''foxnews'' = Inr r
        \<and> biasScore r = Fin (of_int k) \<and> biasLabel r = JStr lab \<and> label_range lab k)"
  using label_as_the_code_assigns_it
    [of "JObj [(''biasScore'', JNum 90), (''biasLabel'', JStr ''Liberal'')]"
        "\<lambda>x. []" "JObj [(''biasLabel'', JStr ''Conservative'')]" "JObj []"
        "\<lambda>k. 0" "''Police report''" "''crime''" "''foxnews''"]
    primary_90_liberal combined_defaults[of "\<lambda>x. []"]
  by simp

lemma thirteen_unions:
  "ctnAnalyzeContentBasedBias rnd
     ''union union union union union union union union union union union union union'' [] ''example''
   = Inr \<lparr>biasScore = Fin 25, biasLabel = JStr ''Highly Liberal'', confidence = Fin (281 / 360),
        reasoning = JStr ''Content-based analysis: Detected 26 liberal, 0 conservative, and 0 neutral indicators in the article content from example'',
        keyIndicators = JArr [JStr ''content-analysis'', JStr ''keyword-detection'', JStr ''linguistic-patterns''],
        sourceReliability = JStr ''Unknown'',
        analysisMethod = ''CTN content-based linguistic analysis''\<rparr>"
proof -
  have l: "keywordScore liberalKeywords (toLowerCase ''union union union union union union union union union union union union union'') (toLowerCase []) = Inr 26"
    by code_simp
  have c: "keywordScore conservativeKeywords (toLowerCase ''union union union union union union union union union union union union union'') (toLowerCase []) = Inr 0"
    by code_simp
  have n: "keywordScore neutralKeywords (toLowerCase ''union union union union union union union union union union union union union'') (toLowerCase []) = Inr 0"
    by code_simp
  have s: "\<not> list_ex (str_includes (toLowerCase ''example'')) liberalSources"
    "\<not> list_ex (str_includes (toLowerCase ''example'')) conservativeSources"
    by code_simp+
  have t: "show_nat 26 = ''26''" "show_nat 0 = ''0''" by code_simp+
  have r: "Math_round (445 / 18) = 25" by (simp add: Math_round_def)
  show ?thesis
    using l c n s t r
    by (simp add: ctnAnalyzeContentBasedBias_def thenE_def Let_def contentBiasDecision_def)
qed

section \<open>Tier 1 on a freshly started service\<close>

lemma primary_success:
  assumes "llm PrimaryCall = Parsed v" and "primaryResult v = Inr r"
  shows "fst (ctnAnalyzePoliticalBias rt llm rnd initial_state content title source) = Inr r"
    and "trace (snd (ctnAnalyzePoliticalBias rt llm rnd initial_state content title source))
           = [Llm PrimaryCall]"
  using assms
  by (simp_all add: ctnAnalyzePoliticalBias_def primaryAttempt_def initial_state_def Let_def
      reply_value_def thenE_def log_event_def)

text \<open>
  Claim C8 fails as stated. Tier 1, given the reply
  \<open>{"biasScore": 90, "biasLabel": "Liberal"}\<close>, returns the score 90 with the label
  Liberal, where the rubric puts 90 under Highly Conservative. The keyword heuristic, given
  a title of thirteen times the keyword \<open>union\<close>, an empty content and the source
  \<open>example\<close>, returns the score 25 with the label Highly Liberal, where the rubric puts
  25 under Liberal.
\<close>

theorem label_rubric_counterexample:
  "(\<forall>rt rnd.
      fst (ctnAnalyzePoliticalBias rt
             (\<lambda>call. Parsed (JObj [(''biasScore'', JNum 90), (''biasLabel'', JStr ''Liberal'')]))
             rnd initial_state ''Some text'' ''A title'' ''example'')
      = Inr \<lparr>biasScore = Fin 90, biasLabel = JStr ''Liberal'', confidence = Fin 0.5,
          reasoning = JStr ''AI-powered bias analysis completed'', keyIndicators = JArr [],
          sourceReliability = JUndefined, analysisMethod = ''CTN AI-powered primary analysis''\<rparr>)
   \<and> rubricLabel 90 = ''Highly Conservative''
   \<and> (\<forall>rnd.
      ctnAnalyzeContentBasedBias rnd
        ''union union union union union union union union union union union union union'' []
        ''example''
      = Inr \<lparr>biasScore = Fin 25, biasLabel = JStr ''Highly Liberal'', confidence = Fin (281 / 360),
          reasoning = JStr ''Content-based analysis: Detected 26 liberal, 0 conservative, and 0 neutral indicators in the article content from example'',
          keyIndicators = JArr [JStr ''content-analysis'', JStr ''keyword-detection'', JStr ''linguistic-patterns''],
          sourceReliability = JStr ''Unknown'',
          analysisMethod = ''CTN content-based linguistic analysis''\<rparr>)
   \<and> rubricLabel 25 = ''Liberal''"
  using primary_success(1)[OF _ primary_90_liberal] thirteen_unions
  by (simp add: rubricLabel_def)

lemma primary_high_medium:
  "primaryResult (JObj [(''biasScore'', JStr ''high''), (''confidence'', JStr ''medium'')]) =
     Inr \<lparr>biasScore = NaN, biasLabel = JStr ''Neutral/Centrist'', confidence = NaN,
          reasoning = JStr ''AI-powered bias analysis completed'', keyIndicators = JArr [],
          sourceReliability = JUndefined, analysisMethod = ''CTN AI-powered primary analysis''\<rparr>"
proof -
  have "StringToNumber ''high'' = NaN" "StringToNumber ''medium'' = NaN"
    by (simp_all add: StringToNumber_def trim_def is_ws_def NonDecimalIntegerLiteral_def
        starts_with_def StrUnsignedDecimalLiteral_def is_digit_def)
  then show ?thesis
    by (simp add: primaryResult_def thenE_def clamp_def ToNumber_def js_or_def Math_min_def
        Math_max_def)
qed

text \<open>
  Claim C1 at the failing input. When the reply of tier 1 is
  \<open>{"biasScore": "high", "confidence": "medium"}\<close>, both texts are truthy, so no default
  replaces them; \<open>Math.min\<close> turns each into NaN and \<open>Math.max\<close> keeps NaN. Tier 1 returns
  the score NaN and the confidence NaN, which lie in no range.
\<close>

theorem primary_analysis_returns_NaN:
  "fst (ctnAnalyzePoliticalBias rt
          (\<lambda>call. Parsed (JObj [(''biasScore'', JStr ''high''), (''confidence'', JStr ''medium'')]))
          rnd initial_state content title source)
     = Inr \<lparr>biasScore = NaN, biasLabel = JStr ''Neutral/Centrist'', confidence = NaN,
          reasoning = JStr ''AI-powered bias analysis completed'', keyIndicators = JArr [],
          sourceReliability = JUndefined, analysisMethod = ''CTN AI-powered primary analysis''\<rparr>
   \<and> \<not> in_range 0 100 NaN \<and> \<not> in_range 0 1 NaN"
  using primary_success(1)[OF _ primary_high_medium]
  by (simp add: in_range_def)

section \<open>Defaults and clamping in tier 1\<close>

lemma clamp_falsy:
  "\<not> truthy s \<Longrightarrow> 0 \<le> d \<Longrightarrow> d \<le> hi \<Longrightarrow> clamp 0 hi (js_or s (JNum d)) = Inr (Fin d)"
  by (simp add: clamp_def js_or_def ToNumber_def thenE_def Math_min_def Math_max_def)

lemma clamp_number:
  "n \<noteq> 0 \<Longrightarrow> 0 \<le> hi \<Longrightarrow> clamp 0 hi (js_or (JNum n) (JNum d)) = Inr (Fin (max 0 (min hi n)))"
  by (auto simp: clamp_def js_or_def ToNumber_def thenE_def Math_min_def Math_max_def max_def min_def)

lemma primaryResult_fields:
  assumes "primaryResult v = Inr r"
  shows "\<exists>s c. getField v ''biasScore'' = Inr s \<and> getField v ''confidence'' = Inr c
           \<and> clamp 0 100 (js_or s (JNum 50)) = Inr (biasScore r)
           \<and> clamp 0 1 (js_or c (JNum 0.5)) = Inr (confidence r)"
  using assms by (auto simp: primaryResult_def thenE_def split: sum.splits)

text \<open>
  Claim C10, as amended. When tier 1 builds its result from a parsed reply, a falsy
  \<open>biasScore\<close> (0, missing, \<open>null\<close>, \<open>false\<close> or the empty text) becomes the default 50
  and a falsy \<open>confidence\<close> becomes the default 0.5, before the clamp. A number other
  than 0 is clamped to its range. So a reported 0 is never returned as 0; tier 1 returns
  exactly 0 for a reported number just when that number is negative, which the clamp
  raises to 0.
\<close>

theorem primary_defaults_for_falsy_fields:
  assumes "primaryResult v = Inr r"
  shows "\<exists>s c. getField v ''biasScore'' = Inr s \<and> getField v ''confidence'' = Inr c
     \<and> (\<not> truthy s \<longrightarrow> biasScore r = Fin 50)
     \<and> (\<not> truthy c \<longrightarrow> confidence r = Fin 0.5)
     \<and> (\<forall>n. s = JNum n \<and> n \<noteq> 0 \<longrightarrow> biasScore r = Fin (max 0 (min 100 n)))
     \<and> (\<forall>n. c = JNum n \<and> n \<noteq> 0 \<longrightarrow> confidence r = Fin (max 0 (min 1 n)))
     \<and> (\<forall>n. s = JNum n \<longrightarrow> (biasScore r = Fin 0 \<longleftrightarrow> n < 0))
     \<and> (\<forall>n. c = JNum n \<longrightarrow> (confidence r = Fin 0 \<longleftrightarrow> n < 0))"
proof -
  from primaryResult_fields[OF assms] obtain s c where
    s: "getField v ''biasScore'' = Inr s" and c: "getField v ''confidence'' = Inr c"
    and bs: "clamp 0 100 (js_or s (JNum 50)) = Inr (biasScore r)"
    and cf: "clamp 0 1 (js_or c (JNum 0.5)) = Inr (confidence r)" by blast
  have 1: "biasScore r = Fin 50" if "\<not> truthy s"
    using clamp_falsy[OF that, of 50 100] bs by simp
  have 2: "confidence r = Fin 0.5" if "\<not> truthy c"
    using clamp_falsy[OF that, of "0.5" 1] cf by simp
  have 3: "biasScore r = Fin (max 0 (min 100 n))" if "s = JNum n" "n \<noteq> 0" for n
    using clamp_number[OF that(2), of 100 50] bs that(1) by simp
  have 4: "confidence r = Fin (max 0 (min 1 n))" if "c = JNum n" "n \<noteq> 0" for n
    using clamp_number[OF that(2), of 1 "0.5"] cf that(1) by simp
  have 5: "biasScore r = Fin 0 \<longleftrightarrow> n < 0" if "s = JNum n" for n
  proof (cases "n = 0")
    case True
    with that 1 show ?thesis by simp
  next
    case False
    with 3[OF that] show ?thesis by (auto simp: max_def min_def)
  qed
  have 6: "confidence r = Fin 0 \<longleftrightarrow> n < 0" if "c = JNum n" for n
  proof (cases "n = 0")
    case True
    with that 2 show ?thesis by simp
  next
    case False
    with 4[OF that] show ?thesis by (auto simp: max_def min_def)
  qed
  from s c 1 2 3 4 5 6 show ?thesis by (intro exI[of _ s] exI[of _ c]) simp
qed

lemma primary_zero_reported:
  "primaryResult (JObj [(''biasScore'', JNum 0), (''confidence'', JNum 0)]) =
     Inr \<lparr>biasScore = Fin 50, biasLabel = JStr ''Neutral/Centrist'', confidence = Fin 0.5,
          reasoning = JStr ''AI-powered bias analysis completed'', keyIndicators = JArr [],
          sourceReliability = JUndefined, analysisMethod = ''CTN AI-powered primary analysis''\<rparr>"
  by (simp add: primaryResult_def thenE_def clamp_def ToNumber_def js_or_def Math_min_def Math_max_def)

theorem primary_defaults_for_falsy_fields_witness:
  "\<exists>s c. getField (JObj [(''biasScore'', JNum 0), (''confidence'', JNum 0)]) ''biasScore'' = Inr s
     \<and> getField (JObj [(''biasScore'', JNum 0), (''confidence'', JNum 0)]) ''confidence'' = Inr c
     \<and> \<not> truthy s \<and> \<not> truthy c
     \<and> biasScore (projr (primaryResult (JObj [(''biasScore'', JNum 0), (''confidence'', JNum 0)])))
         = Fin 50
     \<and> confidence (projr (primaryResult (JObj [(''biasScore'', JNum 0), (''confidence'', JNum 0)])))
         = Fin 0.5"
  using primary_defaults_for_falsy_fields[OF primary_zero_reported]
  by (simp add: primary_zero_reported)

lemma primary_negative_reported:
  "primaryResult (JObj [(''biasScore'', JNum (- 5)), (''confidence'', JNum (- 0.2))]) =
     Inr \<lparr>biasScore = Fin 0, biasLabel = JStr ''Neutral/Centrist'', confidence = Fin 0,
          reasoning = JStr ''AI-powered bias analysis completed'', keyIndicators = JArr [],
          sourceReliability = JUndefined, analysisMethod = ''CTN AI-powered primary analysis''\<rparr>"
  by (simp add: primaryResult_def thenE_def clamp_def ToNumber_def js_or_def Math_min_def Math_max_def)

text \<open>
  Claim C10 fails as stated: tier 1 can return a score and a confidence of exactly 0. For
  the reply \<open>{"biasScore": -5, "confidence": -0.2}\<close> both numbers are truthy and the clamp
  raises them to 0.
\<close>

theorem primary_returns_zero_counterexample:
  "\<forall>rt rnd.
     fst (ctnAnalyzePoliticalBias rt
            (\<lambda>call. Parsed (JObj [(''biasScore'', JNum (- 5)), (''confidence'', JNum (- 0.2))]))
            rnd initial_state ''Some text'' ''A title'' ''example'')
     = Inr \<lparr>biasScore = Fin 0, biasLabel = JStr ''Neutral/Centrist'', confidence = Fin 0,
          reasoning = JStr ''AI-powered bias analysis completed'', keyIndicators = JArr [],
          sourceReliability = JUndefined, analysisMethod = ''CTN AI-powered primary analysis''\<rparr>"
  using primary_success(1)[OF _ primary_negative_reported] by simp

section \<open>The order of the three tiers\<close>

lemma getField_cases:
  "(v = JUndefined \<or> v = JNull) \<and> getField v name = Inl TypeError
   \<or> v \<noteq> JUndefined \<and> v \<noteq> JNull \<and> (\<exists>x. getField v name = Inr x)"
  by (cases v) (auto split: option.splits)

lemma clamp_cases:
  "ToString_throws v \<and> clamp lo hi v = Inl TypeError
   \<or> \<not> ToString_throws v \<and> (\<exists>n. clamp lo hi v = Inr n)"
  by (simp add: clamp_def ToNumber_def thenE_def)

lemma primaryResult_throws_iff:
  "(\<exists>e. primaryResult v = Inl e) \<longleftrightarrow>
     v = JNull \<or> v = JUndefined
     \<or> (\<exists>s. getField v ''biasScore'' = Inr s \<and> ToString_throws (js_or s (JNum 50)))
     \<or> (\<exists>c. getField v ''confidence'' = Inr c \<and> ToString_throws (js_or c (JNum 0.5)))"
proof (cases "v = JUndefined \<or> v = JNull")
  case True
  then show ?thesis by (auto simp: primaryResult_def thenE_def)
next
  case False
  then obtain s l c r k where f:
    "getField v ''biasScore'' = Inr s" "getField v ''biasLabel'' = Inr l"
    "getField v ''confidence'' = Inr c" "getField v ''reasoning'' = Inr r"
    "getField v ''keyIndicators'' = Inr k"
    using getField_cases[of v] by metis
  show ?thesis
    using False f clamp_cases[of "js_or s (JNum 50)" 0 100] clamp_cases[of "js_or c (JNum 0.5)" 0 1]
    by (auto simp: primaryResult_def thenE_def)
qed

lemma primaryAttempt_throws_iff:
  "(\<exists>e. primaryAttempt llm = Inl e) \<longleftrightarrow>
     llm PrimaryCall = CallFailed \<or> llm PrimaryCall = ParseFailed
     \<or> (\<exists>v. llm PrimaryCall = Parsed v \<and> (\<exists>e. primaryResult v = Inl e))"
  by (cases "llm PrimaryCall") (simp_all add: primaryAttempt_def reply_value_def thenE_def)

lemma sourceAnalysisStep_trace:
  "(\<exists>v. sourceAnalysisStep llm st source = (Inr v, st') \<and> (trace st' = trace st \<or> trace st' = trace st @ [Llm SourceCall]))
   \<or> (\<exists>e. sourceAnalysisStep llm st source = (Inl e, st') \<and> trace st' = trace st @ [Llm SourceCall])
   \<or> sourceAnalysisStep llm st source \<noteq> (fst (sourceAnalysisStep llm st source), st')"
  by (cases "llm SourceCall")
     (auto simp: sourceAnalysisStep_def Let_def log_event_def reply_value_def)

lemma sourceBasedAttempt_trace:
  "\<exists>calls. trace (snd (sourceBasedAttempt rt llm st source)) = trace st @ calls
     \<and> (case fst (sourceBasedAttempt rt llm st source) of
           Inr r \<Rightarrow> calls = [Llm SourceCall, Llm ContentCall] \<or> calls = [Llm ContentCall]
         | Inl e \<Rightarrow> calls = [] \<or> calls = [Llm SourceCall] \<or> calls = [Llm ContentCall]
                    \<or> calls = [Llm SourceCall, Llm ContentCall])"
proof -
  obtain a st1 where a: "sourceAnalysisStep llm st source = (a, st1)" by (cases "sourceAnalysisStep llm st source")
  with sourceAnalysisStep_trace[of llm st source st1]
  consider (ok) v where "a = Inr v" "trace st1 = trace st \<or> trace st1 = trace st @ [Llm SourceCall]"
    | (bad) e where "a = Inl e" "trace st1 = trace st @ [Llm SourceCall]"
    by auto
  then show ?thesis
  proof cases
    case bad
    with a show ?thesis by (simp add: sourceBasedAttempt_def)
  next
    case ok
    show ?thesis
    proof (cases "contentPromptValues (Number_toString rt) v")
      case (Inl e)
      with a ok show ?thesis by (auto simp: sourceBasedAttempt_def)
    next
      case (Inr p)
      show ?thesis
      proof (cases "reply_value (llm ContentCall)")
        case (Inl e)
        with a ok Inr show ?thesis by (auto simp: sourceBasedAttempt_def Let_def log_event_def)
      next
        case ca: (Inr contentAnalysis)
        with a ok Inr show ?thesis
          by (cases "combinedResult (Number_toString rt) v contentAnalysis")
             (auto simp: sourceBasedAttempt_def Let_def log_event_def)
      qed
    qed
  qed
qed

lemma tier2_trace:
  defines "G \<equiv> \<lambda>rt llm rnd st source title content.
     ctnGetSourceBasedBiasAnalysis rt llm rnd st source title content"
  shows "\<exists>calls. (case fst (sourceBasedAttempt rt llm (log_event EnterTier2 st) source) of
           Inr r \<Rightarrow> fst (G rt llm rnd st source title content) = Inr r
                \<and> trace (snd (G rt llm rnd st source title content)) = trace st @ [EnterTier2] @ calls
                \<and> (calls = [Llm SourceCall, Llm ContentCall] \<or> calls = [Llm ContentCall])
         | Inl e \<Rightarrow> fst (G rt llm rnd st source title content)
                    = ctnAnalyzeContentBasedBias rnd title content source
                \<and> trace (snd (G rt llm rnd st source title content))
                    = trace st @ [EnterTier2] @ calls @ [EnterTier3]
                \<and> (calls = [] \<or> calls = [Llm SourceCall] \<or> calls = [Llm ContentCall]
                    \<or> calls = [Llm SourceCall, Llm ContentCall]))"
proof -
  let ?st = "log_event EnterTier2 st"
  obtain a st1 where a: "sourceBasedAttempt rt llm ?st source = (a, st1)"
    by (cases "sourceBasedAttempt rt llm ?st source")
  from sourceBasedAttempt_trace[of rt llm ?st source] a obtain calls where
    c: "trace st1 = trace ?st @ calls"
    "(case a of
           Inr r \<Rightarrow> calls = [Llm SourceCall, Llm ContentCall] \<or> calls = [Llm ContentCall]
         | Inl e \<Rightarrow> calls = [] \<or> calls = [Llm SourceCall] \<or> calls = [Llm ContentCall]
                    \<or> calls = [Llm SourceCall, Llm ContentCall])"
    by auto
  show ?thesis
    by (rule exI[of _ calls])
       (use a c in \<open>auto simp: G_def ctnGetSourceBasedBiasAnalysis_def log_event_def split: sum.splits\<close>)
qed

text \<open>
  Claim C2, as amended. One analysis goes through the tiers in order and makes each call
  to the language model at most once. With \<open>suffix\<close> what the analysis adds to the trace:
  on a cache hit nothing is called; when the \<open>try\<close> block of tier 1 succeeds the result
  is its result and only the primary call was made; tier 2 is entered exactly when that
  block throws, and its result is returned when its own \<open>try\<close> block succeeds; the
  keyword heuristic is entered exactly when the block of tier 2 throws. The block of
  tier 1 throws when the call fails, when the reply does not parse, and also when the
  reply parses but building the result throws a TypeError: the parsed value is \<open>null\<close>,
  or the score or the confidence is an object that cannot be converted to a number.
\<close>

theorem fallback_chain_order:
  "(\<exists>suffix.
     trace (snd (ctnAnalyzePoliticalBias rt llm rnd st content title source)) = trace st @ suffix
     \<and> (case bias_cache st (''ctn_bias_'' @ take 50 (base64 rt content)) of
          Some cached \<Rightarrow>
            suffix = []
            \<and> fst (ctnAnalyzePoliticalBias rt llm rnd st content title source) = Inr cached
        | None \<Rightarrow>
            (case primaryAttempt llm of
               Inr result \<Rightarrow>
                 suffix = [Llm PrimaryCall]
                 \<and> fst (ctnAnalyzePoliticalBias rt llm rnd st content title source) = Inr result
             | Inl e \<Rightarrow>
                 (case fst (sourceBasedAttempt rt llm
                              (log_event EnterTier2 (log_event (Llm PrimaryCall) st)) source) of
                    Inr result \<Rightarrow>
                      fst (ctnAnalyzePoliticalBias rt llm rnd st content title source) = Inr result
                      \<and> (suffix = [Llm PrimaryCall, EnterTier2, Llm SourceCall, Llm ContentCall]
                         \<or> suffix = [Llm PrimaryCall, EnterTier2, Llm ContentCall])
                  | Inl e' \<Rightarrow>
                      fst (ctnAnalyzePoliticalBias rt llm rnd st content title source)
                        = ctnAnalyzeContentBasedBias rnd title content source
                      \<and> (suffix = [Llm PrimaryCall, EnterTier2, EnterTier3]
                         \<or> suffix = [Llm PrimaryCall, EnterTier2, Llm SourceCall, EnterTier3]
                         \<or> suffix = [Llm PrimaryCall, EnterTier2, Llm ContentCall, EnterTier3]
                         \<or> suffix = [Llm PrimaryCall, EnterTier2, Llm SourceCall, Llm ContentCall,
                                      EnterTier3])))))
   \<and> ((\<exists>e. primaryAttempt llm = Inl e) \<longleftrightarrow>
         llm PrimaryCall = CallFailed \<or> llm PrimaryCall = ParseFailed
         \<or> (\<exists>v. llm PrimaryCall = Parsed v
               \<and> (v = JNull \<or> v = JUndefined
                  \<or> (\<exists>s. getField v ''biasScore'' = Inr s \<and> ToString_throws (js_or s (JNum 50)))
                  \<or> (\<exists>c. getField v ''confidence'' = Inr c
                         \<and> ToString_throws (js_or c (JNum 0.5))))))"
proof -
  let ?P = "ctnAnalyzePoliticalBias rt llm rnd st content title source"
  let ?key = "''ctn_bias_'' @ take 50 (base64 rt content)"
  let ?st1 = "log_event (Llm PrimaryCall) st"
  have fail: "(\<exists>e. primaryAttempt llm = Inl e) \<longleftrightarrow>
         llm PrimaryCall = CallFailed \<or> llm PrimaryCall = ParseFailed
         \<or> (\<exists>v. llm PrimaryCall = Parsed v
               \<and> (v = JNull \<or> v = JUndefined
                  \<or> (\<exists>s. getField v ''biasScore'' = Inr s \<and> ToString_throws (js_or s (JNum 50)))
                  \<or> (\<exists>c. getField v ''confidence'' = Inr c
                         \<and> ToString_throws (js_or c (JNum 0.5)))))"
    unfolding primaryAttempt_throws_iff primaryResult_throws_iff ..
  have chain: "\<exists>suffix. trace (snd ?P) = trace st @ suffix
     \<and> (case bias_cache st ?key of
          Some cached \<Rightarrow> suffix = [] \<and> fst ?P = Inr cached
        | None \<Rightarrow>
            (case primaryAttempt llm of
               Inr result \<Rightarrow> suffix = [Llm PrimaryCall] \<and> fst ?P = Inr result
             | Inl e \<Rightarrow>
                 (case fst (sourceBasedAttempt rt llm (log_event EnterTier2 ?st1) source) of
                    Inr result \<Rightarrow>
                      fst ?P = Inr result
                      \<and> (suffix = [Llm PrimaryCall, EnterTier2, Llm SourceCall, Llm ContentCall]
                         \<or> suffix = [Llm PrimaryCall, EnterTier2, Llm ContentCall])
                  | Inl e' \<Rightarrow>
                      fst ?P = ctnAnalyzeContentBasedBias rnd title content source
                      \<and> (suffix = [Llm PrimaryCall, EnterTier2, EnterTier3]
                         \<or> suffix = [Llm PrimaryCall, EnterTier2, Llm SourceCall, EnterTier3]
                         \<or> suffix = [Llm PrimaryCall, EnterTier2, Llm ContentCall, EnterTier3]
                         \<or> suffix = [Llm PrimaryCall, EnterTier2, Llm SourceCall, Llm ContentCall,
                                      EnterTier3]))))"
  proof (cases "bias_cache st ?key")
    case (Some cached)
    then show ?thesis by (simp add: ctnAnalyzePoliticalBias_def)
  next
    case None
    show ?thesis
    proof (cases "primaryAttempt llm")
      case (Inr result)
      with None show ?thesis
        by (simp add: ctnAnalyzePoliticalBias_def Let_def log_event_def)
    next
      case (Inl e)
      with None have P: "?P = ctnGetSourceBasedBiasAnalysis rt llm rnd ?st1 source title content"
        by (simp add: ctnAnalyzePoliticalBias_def Let_def)
      from tier2_trace[where rt = rt and llm = llm and st = "?st1" and source = source
          and rnd = rnd and title = title and content = content] obtain calls where
        t: "(case fst (sourceBasedAttempt rt llm (log_event EnterTier2 ?st1) source) of
           Inr r \<Rightarrow> fst ?P = Inr r
                \<and> trace (snd ?P) = trace ?st1 @ [EnterTier2] @ calls
                \<and> (calls = [Llm SourceCall, Llm ContentCall] \<or> calls = [Llm ContentCall])
         | Inl e \<Rightarrow> fst ?P = ctnAnalyzeContentBasedBias rnd title content source
                \<and> trace (snd ?P) = trace ?st1 @ [EnterTier2] @ calls @ [EnterTier3]
                \<and> (calls = [] \<or> calls = [Llm SourceCall] \<or> calls = [Llm ContentCall]
                    \<or> calls = [Llm SourceCall, Llm ContentCall]))"
        unfolding P by blast
      show ?thesis
      proof (cases "fst (sourceBasedAttempt rt llm (log_event EnterTier2 ?st1) source)")
        case a: (Inr r)
        with t None Inl show ?thesis
          by (intro exI[of _ "[Llm PrimaryCall, EnterTier2] @ calls"])
             (auto simp: log_event_def)
      next
        case a: (Inl e')
        with t None Inl show ?thesis
          by (intro exI[of _ "[Llm PrimaryCall, EnterTier2] @ calls @ [EnterTier3]"])
             (auto simp: log_event_def)
      qed
    qed
  qed
  from chain fail show ?thesis by blast
qed

theorem fallback_chain_order_witness:
  "\<exists>e. primaryAttempt
         (\<lambda>call. case call of PrimaryCall \<Rightarrow> Parsed JNull | SourceCall \<Rightarrow> CallFailed
            | ContentCall \<Rightarrow> CallFailed) = Inl e"
proof -
  let ?llm = "\<lambda>call. case call of PrimaryCall \<Rightarrow> Parsed JNull | SourceCall \<Rightarrow> CallFailed
            | ContentCall \<Rightarrow> CallFailed"
  note iff = fallback_chain_order[where llm = ?llm, THEN conjunct2]
  show ?thesis unfolding iff by simp
qed

lemma null_reply_trace:
  "trace (snd (ctnAnalyzePoliticalBias rt
                 (\<lambda>call. case call of PrimaryCall \<Rightarrow> Parsed JNull | SourceCall \<Rightarrow> CallFailed
                    | ContentCall \<Rightarrow> CallFailed)
                 rnd initial_state content title source))
     = [Llm PrimaryCall, EnterTier2, Llm SourceCall, EnterTier3]"
  by (simp add: ctnAnalyzePoliticalBias_def primaryAttempt_def primaryResult_def initial_state_def
      Let_def reply_value_def thenE_def log_event_def ctnGetSourceBasedBiasAnalysis_def
      sourceBasedAttempt_def sourceAnalysisStep_def)

text \<open>
  Claim C2 fails as stated. Let the reply of tier 1 be the JSON text \<open>null\<close>: the call
  succeeds and the parsing succeeds, with the value \<open>null\<close>. Reading \<open>biasScore\<close> of
  \<open>null\<close> throws, and tier 2 is entered (and, its call failing, the keyword heuristic).
\<close>

theorem fallback_chain_counterexample:
  "\<forall>rt rnd.
     reply_value (Parsed JNull) = Inr JNull
     \<and> trace (snd (ctnAnalyzePoliticalBias rt
                 (\<lambda>call. case call of PrimaryCall \<Rightarrow> Parsed JNull | SourceCall \<Rightarrow> CallFailed
                    | ContentCall \<Rightarrow> CallFailed)
                 rnd initial_state ''Some text'' ''A title'' ''example''))
       = [Llm PrimaryCall, EnterTier2, Llm SourceCall, EnterTier3]"
  using null_reply_trace by (simp add: reply_value_def)

section \<open>Article retrieval: duplicates\<close>











section \<open>The guard of the search endpoint\<close>

lemma round_half_even_lower: "q - 1 / 2 \<le> of_int (round_half_even q)"
proof -
  have f: "q < of_int \<lfloor>q\<rfloor> + 1" by linarith
  show ?thesis
    unfolding round_half_even_def Let_def using f by (simp split: if_splits) linarith
qed

lemma double_ulp_binade:
  assumes "2 powr of_int e \<le> a" and "a < 2 powr of_int (e + 1)" and "- 1022 \<le> e"
  shows "double_ulp a = 2 powr of_int (e - 52)"
proof -
  have pos: "0 < a" using assms(1) by (smt (verit) powr_gt_zero)
  have "\<lfloor>log 2 a\<rfloor> = e"
    using assms(1,2) pos by (simp add: floor_log_eq_powr_iff)
  moreover have "\<not> a < 2 powr (- 1022)"
  proof -
    have "2 powr (- 1022) \<le> (2::real) powr of_int e"
      by (rule powr_mono) (use assms(3) in simp_all)
    with assms(1) show ?thesis by linarith
  qed
  ultimately show ?thesis by (simp add: double_ulp_def)
qed

lemma to_double_above_20:
  assumes "21 \<le> x"
  shows "num_gt (to_double x) (Fin 20)"
proof -
  define e where "e = \<lfloor>log 2 x\<rfloor>"
  have pos: "0 < x" using assms by simp
  have lo: "2 powr of_int e \<le> x"
    unfolding e_def using pos by (metis floor_log_eq_powr_iff one_less_numeral_iff semiring_norm(76))
  have hi: "x < 2 powr of_int (e + 1)"
    unfolding e_def using pos by (metis floor_log_eq_powr_iff one_less_numeral_iff semiring_norm(76))
  have "(2::real) powr 4 \<le> x" using assms by simp
  then have "4 \<le> log 2 x" using pos by (simp add: le_log_iff)
  then have e4: "4 \<le> e" unfolding e_def by (simp add: le_floor_iff)
  then have "- 1022 \<le> e" by simp
  from double_ulp_binade[OF lo hi this] have u: "double_ulp x = 2 powr of_int (e - 52)" .
  define u where "u = double_ulp x"
  have upos: "0 < u" unfolding u_def u by simp
  have "u = 2 powr of_int e * 2 powr (- 52)" unfolding u_def u by (simp add: powr_diff powr_minus field_simps)
  also have "\<dots> \<le> x * 2 powr (- 52)" using lo by simp
  finally have ule: "u \<le> x * 2 powr (- 52)" .
  have "(2::real) powr (- 52) = 1 / 2 ^ 52"
    using powr_realpow[of 2 52] by (simp add: powr_minus_divide)
  then have p52: "(2::real) powr (- 52) \<le> 1 / 100" by simp
  define r where "r = of_int (round_half_even (x / u)) * u"
  have "x / u - 1 / 2 \<le> of_int (round_half_even (x / u))" by (rule round_half_even_lower)
  then have "(x / u - 1 / 2) * u \<le> r" unfolding r_def using upos by (simp add: mult_right_mono)
  moreover have "(x / u - 1 / 2) * u = x - u / 2" using upos by (simp add: field_simps)
  ultimately have "x - u / 2 \<le> r" by simp
  moreover have "x * 2 powr (- 52) \<le> x * (1 / 100)"
    using p52 pos by (intro mult_left_mono) simp_all
  then have "u / 2 \<le> x / 200" using ule by simp
  ultimately have "20 < r" using assms by simp
  have "to_double x = (if 2 ^ 1024 \<le> r then PosInf else Fin r)"
    using pos unfolding r_def u_def by (simp add: to_double_def Let_def)
  with \<open>20 < r\<close> show ?thesis
    by (cases "2 ^ 1024 \<le> r") (simp_all add: num_gt_def)
qed

lemma round_half_even_upper: "of_int (round_half_even q) \<le> q + 1 / 2"
proof -
  have f: "of_int \<lfloor>q\<rfloor> \<le> q" by simp
  show ?thesis
    unfolding round_half_even_def Let_def using f by (simp split: if_splits) linarith
qed

lemma double_ulp_small_binade:
  fixes x :: real and k :: nat
  assumes "2 ^ k \<le> x" and "x < 2 ^ (k + 1)" and "k \<le> 52"
  shows "double_ulp x = 1 / 2 ^ (52 - k)"
proof -
  have "(0::real) < 2 ^ k" by simp
  with assms(1) have pos: "0 < x" by linarith
  have lo: "2 powr of_int (int k) \<le> x" using assms(1) by (simp add: powr_realpow)
  have "(2::real) powr real (Suc k) = 2 ^ Suc k" by (rule powr_realpow) simp
  moreover have "real_of_int (int k + 1) = real (Suc k)" by simp
  ultimately have "(2::real) powr of_int (int k + 1) = 2 ^ (k + 1)" by (simp only: Suc_eq_plus1)
  with assms(2) have hi: "x < 2 powr of_int (int k + 1)" by simp
  have u: "double_ulp x = 2 powr of_int (int k - 52)"
    by (rule double_ulp_binade[OF lo hi]) simp
  define j where "j = 52 - k"
  have kj: "k + j = 52" using assms(3) by (simp add: j_def)
  have "(2::real) powr of_int (int k - 52) = 2 powr (real k - real (k + j))"
    unfolding kj by simp
  also have "\<dots> = 2 powr (- real j)" by simp
  also have "\<dots> = 1 / 2 powr real j" by (rule powr_minus_divide)
  also have "\<dots> = 1 / 2 ^ j" by (simp add: powr_realpow)
  finally have "(2::real) powr of_int (int k - 52) = 1 / 2 ^ (52 - k)" unfolding j_def .
  with u show ?thesis by simp
qed

lemma to_double_small_binade:
  fixes x :: real and k :: nat
  assumes "2 ^ k \<le> x" and "x < 2 ^ (k + 1)" and "k \<le> 52"
  shows "to_double x = Fin (of_int (round_half_even (x * 2 ^ (52 - k))) / 2 ^ (52 - k))"
proof -
  have "(0::real) < 2 ^ k" by simp
  with assms(1) have pos: "0 < x" by linarith
  note u = double_ulp_small_binade[OF assms]
  define j where "j = 52 - k"
  have kj: "k + 1 + j = 53" using assms(3) by (simp add: j_def)
  define n where "n = round_half_even (x * 2 ^ j)"
  have "of_int n \<le> x * 2 ^ j + 1 / 2" unfolding n_def by (rule round_half_even_upper)
  also have "\<dots> < 2 ^ (k + 1) * 2 ^ j + 1 / 2" using assms(2) by simp
  also have "\<dots> = 2 ^ 53 + 1 / 2" unfolding power_add[symmetric] kj ..
  finally have n53: "real_of_int n < 2 ^ 53 + 1 / 2" .
  have "(1::real) \<le> 2 ^ j" by simp
  then have "real_of_int n / 2 ^ j \<le> \<bar>real_of_int n\<bar> / 1"
    by (intro frac_le) simp_all
  also have "\<dots> < 2 ^ 1024"
  proof -
    have "0 \<le> x * 2 ^ j" using pos by simp
    then have "- 1 / 2 \<le> real_of_int n"
      using round_half_even_lower[of "x * 2 ^ j"] unfolding n_def by linarith
    then have "0 \<le> n" by linarith
    with n53 have "\<bar>real_of_int n\<bar> < 2 ^ 53 + 1 / 2" by simp
    also have "\<dots> < (2::real) ^ 1024" by simp
    finally show ?thesis by simp
  qed
  finally have small: "\<not> 2 ^ 1024 \<le> real_of_int n / 2 ^ j" by simp
  have "to_double x = Fin (real_of_int n / 2 ^ j)"
    using pos small unfolding n_def j_def by (simp add: to_double_def Let_def u)
  then show ?thesis unfolding n_def j_def .
qed

lemma to_double_21: "to_double 21 = Fin 21"
  using to_double_small_binade[of 4 21] by (simp add: round_half_even_def)

lemma to_double_25: "to_double 25 = Fin 25"
  using to_double_small_binade[of 4 25] by (simp add: round_half_even_def)

lemma to_double_just_above_20: "to_double (20000000000000001 / 10 ^ 15) = Fin 20"
  using to_double_small_binade[of 4 "20000000000000001 / 10 ^ 15"]
  by (simp add: round_half_even_def)

lemma digit_not_ws: "is_digit c \<Longrightarrow> \<not> is_ws c"
  by (auto simp: is_digit_def is_ws_def)

lemma trim_digits:
  assumes "list_all is_digit ds"
  shows "trim ds = ds"
proof -
  have "dropWhile is_ws ds = ds"
    using assms by (cases ds) (simp_all add: digit_not_ws)
  moreover have "dropWhile is_ws (rev ds) = rev ds"
    using assms by (cases "rev ds") (auto simp: digit_not_ws list_all_iff)
  ultimately show ?thesis by (simp add: trim_def)
qed

lemma StringToNumber_digits:
  assumes "ds \<noteq> []" and "list_all is_digit ds"
  shows "StringToNumber ds = to_double (real (digits_value 10 ds))"
proof -
  have all: "\<And>c. c \<in> set ds \<Longrightarrow> is_digit c" using assms(2) by (simp add: list_all_iff)
  have nopre: "\<not> starts_with [a, b] ds" if "\<not> is_digit b" for a b
  proof
    assume "starts_with [a, b] ds"
    then have "take (length [a, b]) ds = [a, b]" by (simp only: starts_with_def)
    then have "b \<in> set (take (length [a, b]) ds)" by simp
    then have "b \<in> set ds" by (rule in_set_takeD)
    with all that show False by blast
  qed
  have nd: "NonDecimalIntegerLiteral ds = None"
    by (simp add: NonDecimalIntegerLiteral_def nopre is_digit_def)
  have h: "is_digit (hd ds)" using assms(1) all by simp
  then have sign: "hd ds \<noteq> CHR ''-''" "hd ds \<noteq> CHR ''+''" by (auto simp: is_digit_def)
  have inf: "ds \<noteq> ''Infinity''" using h by (auto simp: is_digit_def)
  have tw: "takeWhile is_digit ds = ds" "dropWhile is_digit ds = []"
    using all by (simp_all add: takeWhile_eq_all_conv dropWhile_eq_Nil_conv)
  have "StrUnsignedDecimalLiteral ds = to_double (real (digits_value 10 ds))"
    using assms(1) inf by (simp add: StrUnsignedDecimalLiteral_def tw parse_exponent_def scale10_def)
  then show ?thesis
    using assms(1) sign nd by (simp add: StringToNumber_def trim_digits[OF assms(2)])
qed

text \<open>
  Claim C4. The guard of the handler converts the parameter \<open>limit\<close> to a number, a
  double, and compares it with 20. Whenever that comparison holds, the handler answers
  with status 400 and the message of the limit, and the state is the one it started from:
  nothing was added to the trace, so the search provider was not called and no article
  was processed. The comparison holds for every limit written in decimal digits whose
  value is above 20.
\<close>

theorem limit_over_20_is_rejected:
  "(\<forall>n. ToNumber limitParam = Inr n \<and> num_gt n (Fin 20) \<longrightarrow>
      searchRoute rt now exa processAll st queryParam limitParam
        = (\<lparr>status = 400, body = ErrorOnly ''Limit cannot exceed 20 articles''\<rparr>, st))
   \<and> (\<forall>ds. ds \<noteq> [] \<and> list_all is_digit ds \<and> 20 < digits_value 10 ds \<longrightarrow>
      (\<exists>n. ToNumber (JStr ds) = Inr n \<and> num_gt n (Fin 20)))"
proof (intro conjI allI impI)
  fix n
  assume a: "ToNumber limitParam = Inr n \<and> num_gt n (Fin 20)"
  then have "limitParam \<noteq> JUndefined" by (auto simp: ToNumber_def num_gt_def)
  with a show "searchRoute rt now exa processAll st queryParam limitParam
        = (\<lparr>status = 400, body = ErrorOnly ''Limit cannot exceed 20 articles''\<rparr>, st)"
    by (simp add: searchRoute_def)
next
  fix ds
  assume a: "ds \<noteq> [] \<and> list_all is_digit ds \<and> 20 < digits_value 10 ds"
  then have "21 \<le> real (digits_value 10 ds)" by simp
  then have "num_gt (to_double (real (digits_value 10 ds))) (Fin 20)"
    by (rule to_double_above_20)
  with a show "\<exists>n. ToNumber (JStr ds) = Inr n \<and> num_gt n (Fin 20)"
    by (simp add: ToNumber_def StringToNumber_digits)
qed

lemma twenty_one_digits: "''21'' \<noteq> [] \<and> list_all is_digit ''21'' \<and> 20 < digits_value 10 ''21''"
  by (simp add: is_digit_def digits_value_def digit_val_def)

theorem limit_over_20_is_rejected_witness:
  "\<forall>rt now exa (processAll :: ctn_state \<Rightarrow> article list \<Rightarrow> (js_error + article list) \<times> ctn_state)
      st queryParam.
     searchRoute rt now exa processAll st queryParam (JStr ''21'')
       = (\<lparr>status = 400, body = ErrorOnly ''Limit cannot exceed 20 articles''\<rparr>, st)"
proof (intro allI)
  fix rt now exa st queryParam
    and processAll :: "ctn_state \<Rightarrow> article list \<Rightarrow> (js_error + article list) \<times> ctn_state"
  from limit_over_20_is_rejected[THEN conjunct2] twenty_one_digits
  obtain n where n: "ToNumber (JStr ''21'') = Inr n \<and> num_gt n (Fin 20)" by blast
  with limit_over_20_is_rejected[THEN conjunct1, of "JStr ''21''"]
  show "searchRoute rt now exa processAll st queryParam (JStr ''21'')
       = (\<lparr>status = 400, body = ErrorOnly ''Limit cannot exceed 20 articles''\<rparr>, st)"
    by blast
qed

text \<open>
  The guard at four more limits. The text \<open>20.000000000000001\<close> is the double 20, which
  is not above 20; a no-break space before \<open>21\<close> is white space, and the number is 21;
  the text \<open>21abc\<close> is no number, and \<open>parseInt\<close> reads 21 from it; the repeated
  parameter \<open>limit=25&limit=1\<close> is an array, no number either, from whose text
  \<open>parseInt\<close> reads 25.
\<close>

lemma guard_just_above_20: "ToNumber (JStr ''20.000000000000001'') = Inr (Fin 20)"
proof -
  have "digits_value 10 ''20000000000000001'' = 20000000000000001"
    by (simp add: digits_value_def digit_val_def)
  then show ?thesis
    using to_double_just_above_20
    by (simp add: ToNumber_def StringToNumber_def trim_def is_ws_def NonDecimalIntegerLiteral_def
        starts_with_def StrUnsignedDecimalLiteral_def is_digit_def parse_exponent_def scale10_def)
qed

lemma guard_no_break_space: "ToNumber (JStr (CHR 0xA0 # ''21'')) = Inr (Fin 21)"
  using StringToNumber_digits[of "''21''"] twenty_one_digits to_double_21
  by (simp add: ToNumber_def StringToNumber_def trim_def is_ws_def digits_value_def digit_val_def)

lemma guard_text_after_digits:
  "ToNumber (JStr ''21abc'') = Inr NaN" "parsedLimit rt (JStr ''21abc'') = Inr (Fin 21)"
  using to_double_21
  by (simp_all add: ToNumber_def StringToNumber_def trim_def is_ws_def NonDecimalIntegerLiteral_def
      starts_with_def StrUnsignedDecimalLiteral_def is_digit_def parse_exponent_def
      parsedLimit_def ToString_def thenE_def parseInt_def trimStart_def is_radix_digit_def
      digit_val_def digits_value_def)

lemma guard_repeated_parameter:
  "ToNumber (JArr [JStr ''25'', JStr ''1'']) = Inr NaN"
  "parsedLimit rt (JArr [JStr ''25'', JStr ''1'']) = Inr (Fin 25)"
  using to_double_25
  by (simp_all add: ToNumber_def parsedLimit_def ToString_def thenE_def parseInt_def
      trimStart_def is_ws_def starts_with_def is_radix_digit_def digit_val_def digits_value_def)

section \<open>The failing provider\<close>

lemma failed_search:
  "news_cache st (newsCacheKey rt query sources limit) = None \<Longrightarrow>
   ctnSearchNewsArticles rt now ExaFailed st query sources limit
     = (Inl ReferenceError,
        st\<lparr>trace := trace st @
              [Exa LiberalSearch, Exa ConservativeSearch, Exa CenterSearch, Exa MixedSearch]\<rparr>)"
  by (simp add: ctnSearchNewsArticles_def Let_def searchCatchBlock_def)

text \<open>
  Claim C6 at the failing input. On a freshly started service, when the provider search
  fails, \<open>ctnSearchNewsArticles\<close> does not return the five fallback articles: its
  \<open>catch\<close> block throws a ReferenceError, and the endpoint, asked with no limit and
  with no query or with a query text, answers with status 500.
\<close>

theorem failed_search_throws_ReferenceError:
  "ctnSearchNewsArticles rt now ExaFailed initial_state query sources limit
     = (Inl ReferenceError,
        initial_state\<lparr>trace :=
          [Exa LiberalSearch, Exa ConservativeSearch, Exa CenterSearch, Exa MixedSearch]\<rparr>)
   \<and> fst (ctnSearchNewsArticles rt now ExaFailed initial_state query sources limit)
       \<noteq> Inr (fallbackArticles now)
   \<and> length (fallbackArticles now) = 5
   \<and> fst (searchRoute rt now ExaFailed processAll initial_state JUndefined JUndefined)
       = \<lparr>status = 500, body = ErrorWithMessage ''Failed to search news articles'' ReferenceError\<rparr>
   \<and> fst (searchRoute rt now ExaFailed processAll initial_state (JStr q) JUndefined)
       = \<lparr>status = 500, body = ErrorWithMessage ''Failed to search news articles'' ReferenceError\<rparr>"
proof -
  have c: "news_cache initial_state (newsCacheKey rt q s l) = None" for q s l
    by (simp add: initial_state_def)
  have t: "trace initial_state = []" by (simp add: initial_state_def)
  have g: "\<not> num_gt (Fin 10) (Fin 20)" by (simp add: num_gt_def)
  show ?thesis
    using failed_search[OF c] t g
    by (simp add: searchRoute_def fallbackArticles_def ToNumber_def ToString_def parsedLimit_def
        thenE_def)
qed

text \<open>
  A search that returned articles is repeated from the cache: the same call, whatever
  the provider would now answer, returns the same articles and changes nothing.
\<close>

lemma cached_search_repeats:
  assumes "ctnSearchNewsArticles rt now exa st query sources limit = (Inr articles, st')"
  shows "ctnSearchNewsArticles rt now' exa' st' query sources limit = (Inr articles, st')"
proof (cases "news_cache st (newsCacheKey rt query sources limit)")
  case (Some cached)
  with assms have "articles = cached" "st' = st" by (simp_all add: ctnSearchNewsArticles_def)
  with Some show ?thesis by (simp add: ctnSearchNewsArticles_def)
next
  case None
  with assms have "news_cache st' (newsCacheKey rt query sources limit) = Some articles"
    by (cases exa) (auto simp: ctnSearchNewsArticles_def Let_def searchCatchBlock_def)
  then show ?thesis by (simp add: ctnSearchNewsArticles_def)
qed

text \<open>
  Claim C7 at the failing input. On a freshly started service, a search whose provider
  search fails throws and stores nothing under its key. The same call again sends the
  four provider searches a second time, and when they now succeed it returns articles
  where the first call threw.
\<close>

theorem failed_search_is_not_cached:
  "fst (ctnSearchNewsArticles rt now ExaFailed initial_state query sources limit)
     = Inl ReferenceError
   \<and> news_cache (snd (ctnSearchNewsArticles rt now ExaFailed initial_state query sources limit))
       (newsCacheKey rt query sources limit) = None
   \<and> trace (snd (ctnSearchNewsArticles rt now' ExaFailed
             (snd (ctnSearchNewsArticles rt now ExaFailed initial_state query sources limit))
             query sources limit))
       = [Exa LiberalSearch, Exa ConservativeSearch, Exa CenterSearch, Exa MixedSearch,
          Exa LiberalSearch, Exa ConservativeSearch, Exa CenterSearch, Exa MixedSearch]
   \<and> fst (ctnSearchNewsArticles rt now' (ExaResults searchResults)
             (snd (ctnSearchNewsArticles rt now ExaFailed initial_state query sources limit))
             query sources limit)
       \<noteq> fst (ctnSearchNewsArticles rt now ExaFailed initial_state query sources limit)"
proof -
  have c: "news_cache initial_state (newsCacheKey rt query sources limit) = None"
    by (simp add: initial_state_def)
  have t: "trace initial_state = []" by (simp add: initial_state_def)
  note first = failed_search[OF c, of now]
  have c1: "news_cache (snd (ctnSearchNewsArticles rt now ExaFailed initial_state query sources limit))
              (newsCacheKey rt query sources limit) = None"
    unfolding first using c by simp
  show ?thesis
    using first c1 t failed_search[OF c1, of now']
    by (simp add: ctnSearchNewsArticles_def Let_def)
qed

end
